theory Spec2Isabelle
  imports Complex_Main
begin

section \<open>Numeric arrays\<close>

text \<open>
  The elements of the numpy arrays handled by \<^verbatim>\<open>rgb_colourspace.py\<close>. A finite
  element carries its value as a real number; the three non-finite elements are kept
  apart, because \<^verbatim>\<open>np.isnan\<close> tells them apart. The result of an arithmetic operation
  is rounded to the element type of the array: the rounding is a function on the reals
  that the operations take as their first argument.
\<close>

datatype npfloat = Fin real | PInf | NInf | NaN

fun isnan :: "npfloat \<Rightarrow> bool" where
  "isnan NaN = True"
| "isnan _ = False"

fun isfinite :: "npfloat \<Rightarrow> bool" where
  "isfinite (Fin _) = True"
| "isfinite _ = False"

text \<open>
  Addition of two elements, as numpy adds floats: a NaN operand gives NaN, infinities of
  opposite sign give NaN, an infinity absorbs a finite operand, and the sum of two
  finite operands is rounded.
\<close>

fun fadd :: "(real \<Rightarrow> real) \<Rightarrow> npfloat \<Rightarrow> npfloat \<Rightarrow> npfloat" where
  "fadd r NaN y = NaN"
| "fadd r x NaN = NaN"
| "fadd r (Fin a) (Fin b) = Fin (r (a + b))"
| "fadd r PInf NInf = NaN"
| "fadd r NInf PInf = NaN"
| "fadd r PInf y = PInf"
| "fadd r x PInf = PInf"
| "fadd r NInf y = NInf"
| "fadd r x NInf = NInf"

text \<open>A two-dimensional array: a list of rows, each row a list of elements.\<close>

type_synonym ndarray = "npfloat list list"

definition map_array :: "(npfloat \<Rightarrow> npfloat) \<Rightarrow> ndarray \<Rightarrow> ndarray" where
  "map_array f a = map (map f) a"

text \<open>\<^verbatim>\<open>a += c\<close> with a scalar \<open>c\<close>, on the elements.\<close>

definition iadd :: "(real \<Rightarrow> real) \<Rightarrow> npfloat \<Rightarrow> ndarray \<Rightarrow> ndarray" where
  "iadd r c a = map_array (\<lambda>x. fadd r x c) a"

text \<open>\<^verbatim>\<open>a[np.isnan(a)] = 0\<close> on the elements: only the NaN elements are selected.\<close>

definition nan_to_zero :: "npfloat \<Rightarrow> npfloat" where
  "nan_to_zero x = (if isnan x then Fin 0 else x)"

definition zero_nan :: "ndarray \<Rightarrow> ndarray" where
  "zero_nan a = map_array nan_to_zero a"

definition elements :: "ndarray \<Rightarrow> npfloat list" where
  "elements a = concat a"

section \<open>Python values and errors\<close>

datatype py_error = KeyError | IndexError | ValueError | AttributeError

text \<open>
  A colour argument is \<^verbatim>\<open>None\<close> or a Python sequence of numbers (a tuple or a list).
  Its truth value, as \<^verbatim>\<open>not uniform_colour\<close> reads it: \<^verbatim>\<open>None\<close> and the empty
  sequence are false, every other sequence is true. A numpy array is no colour argument
  here: Python refuses the truth value of an array of several elements.
\<close>

type_synonym colour = "npfloat list option"

fun truthy :: "colour \<Rightarrow> bool" where
  "truthy None = False"
| "truthy (Some []) = False"
| "truthy (Some (x # xs)) = True"

section \<open>The libraries the module calls\<close>

text \<open>The fields of \<^verbatim>\<open>colour.RGB_Colourspace\<close> that the module reads.\<close>

record RGB_Colourspace =
  primaries :: ndarray
  whitepoint :: "npfloat list"
  RGB_to_XYZ_matrix :: ndarray

text \<open>
  The structured vertex array returned by \<^verbatim>\<open>vispy.geometry.generation.create_box\<close>,
  with the two fields that are read: \<^verbatim>\<open>vertices['position']\<close> and
  \<^verbatim>\<open>vertices['color']\<close>.
\<close>

record box_vertices =
  position :: ndarray
  color :: ndarray

text \<open>
  The functions and tables imported by the module are parameters of the model:
  \<^verbatim>\<open>create_box\<close> of vispy, the colour-science functions of \<^verbatim>\<open>colour\<close>, and the table
  \<^verbatim>\<open>CHROMATICITY_DIAGRAM_TRANSFORMATIONS\<close> and the constant
  \<^verbatim>\<open>DEFAULT_PLOTTING_ILLUMINANT\<close> of \<^verbatim>\<open>colour_analysis\<close>, whose modules are not among
  the source files. Lookups by name are partial (\<^verbatim>\<open>get_RGB_colourspace\<close> raises
  \<^verbatim>\<open>KeyError\<close> for a name it does not know); \<^verbatim>\<open>create_box\<close> returns its vertices or
  raises (vispy refuses an empty list of planes and a negative segment count with a
  \<^verbatim>\<open>ValueError\<close>); the numeric transformations are functions on arrays. The table is a
  dictionary of dictionaries of functions. \<open>nearest\<close> is numpy's rounding of a real
  result to the element type of the vertex arrays.
\<close>

record libs =
  create_box :: "int \<Rightarrow> int \<Rightarrow> int \<Rightarrow> string list option \<Rightarrow> py_error + box_vertices"
  nearest :: "real \<Rightarrow> real"
  get_RGB_colourspace :: "string \<rightharpoonup> RGB_Colourspace"
  RGB_to_XYZ :: "ndarray \<Rightarrow> npfloat list \<Rightarrow> npfloat list \<Rightarrow> ndarray \<Rightarrow> ndarray"
  XYZ_to_reference_colourspace :: "ndarray \<Rightarrow> npfloat list \<Rightarrow> string \<Rightarrow> py_error + ndarray"
  xy_to_XYZ :: "ndarray \<Rightarrow> ndarray"
  CHROMATICITY_DIAGRAM_TRANSFORMATIONS ::
    "string \<rightharpoonup> (string \<rightharpoonup> (ndarray \<Rightarrow> npfloat list \<Rightarrow> ndarray))"
  DEFAULT_PLOTTING_ILLUMINANT :: "npfloat list"

section \<open>The scene graph and the array store\<close>

text \<open>
  Arrays and scene-graph objects are mutable and shared by reference, so both live in a
  store: an array reference is an index into \<open>heap\<close>, an object reference an index into
  \<open>entities\<close>. A new array or object is appended; nothing is ever freed.
\<close>

type_synonym addr = nat
type_synonym ident = nat

record Box_fields =
  box_width_segments :: int
  box_height_segments :: int
  box_depth_segments :: int
  box_planes :: "string list option"
  box_uniform_colour :: colour
  box_uniform_opacity :: npfloat
  box_vertex_colours :: "ndarray option"
  box_wireframe :: bool
  box_wireframe_offset :: "(int \<times> int) option"
  mesh_vertices :: addr

record Line_fields =
  line_pos :: addr
  line_color :: "npfloat list list"
  line_width :: npfloat
  line_method :: string

datatype visual = Node | Box Box_fields | Line Line_fields

record entity =
  visual :: visual
  parent :: "ident option"

record world =
  entities :: "entity list"
  heap :: "ndarray list"

definition entity_at :: "world \<Rightarrow> ident \<Rightarrow> entity option" where
  "entity_at w i = (if i < length (entities w) then Some (entities w ! i) else None)"

definition array_at :: "world \<Rightarrow> addr \<Rightarrow> ndarray option" where
  "array_at w a = (if a < length (heap w) then Some (heap w ! a) else None)"

definition new_array :: "ndarray \<Rightarrow> world \<Rightarrow> addr \<times> world" where
  "new_array a w = (length (heap w), w\<lparr>heap := heap w @ [a]\<rparr>)"

definition new_entity :: "visual \<Rightarrow> ident option \<Rightarrow> world \<Rightarrow> ident \<times> world" where
  "new_entity v p w = (length (entities w), w\<lparr>entities := entities w @ [\<lparr>visual = v, parent = p\<rparr>]\<rparr>)"

text \<open>An operation that changes an array in place.\<close>

definition update_array :: "addr \<Rightarrow> (ndarray \<Rightarrow> ndarray) \<Rightarrow> world \<Rightarrow> world" where
  "update_array a f w = w\<lparr>heap := (heap w)[a := f (heap w ! a)]\<rparr>"

text \<open>The children of an object: the objects whose parent it is, in creation order.\<close>

definition children :: "world \<Rightarrow> ident \<Rightarrow> ident list" where
  "children w n = filter (\<lambda>i. parent (entities w ! i) = Some n) [0..<length (entities w)]"

text \<open>Every parent reference of a well-formed world names an existing object.\<close>

definition wf_world :: "world \<Rightarrow> bool" where
  "wf_world w = list_all (\<lambda>e. case parent e of None \<Rightarrow> True | Some p \<Rightarrow> p < length (entities w))
     (entities w)"

text \<open>\<^verbatim>\<open>Node(parent)\<close>.\<close>

definition Node_init :: "ident option \<Rightarrow> world \<Rightarrow> ident \<times> world" where
  "Node_init p w = new_entity Node p w"

text \<open>
  \<^verbatim>\<open>box.mesh_data.get_vertices()\<close> returns the array the mesh holds, not a copy;
  \<^verbatim>\<open>box.mesh_data.set_vertices(a)\<close> makes the mesh hold \<open>a\<close>. An object that is not a
  box has no \<^verbatim>\<open>mesh_data\<close>.
\<close>

definition get_vertices :: "world \<Rightarrow> ident \<Rightarrow> py_error + addr" where
  "get_vertices w i =
     (case entity_at w i of
        None \<Rightarrow> Inl AttributeError
      | Some e \<Rightarrow>
          (case visual e of
             Box b \<Rightarrow> Inr (mesh_vertices b)
           | _ \<Rightarrow> Inl AttributeError))"

definition set_vertices :: "ident \<Rightarrow> addr \<Rightarrow> world \<Rightarrow> py_error + world" where
  "set_vertices i a w =
     (case entity_at w i of
        None \<Rightarrow> Inl AttributeError
      | Some e \<Rightarrow>
          (case visual e of
             Box b \<Rightarrow>
               Inr (w\<lparr>entities := (entities w)[i := e\<lparr>visual := Box (b\<lparr>mesh_vertices := a\<rparr>)\<rparr>]\<rparr>)
           | _ \<Rightarrow> Inl AttributeError))"

text \<open>
  Modelled from the spec: the class \<^verbatim>\<open>colour_analysis.visuals.Box\<close> is not among the
  source files. The spec describes its geometry as "a set of 3D vertex positions (one
  cube's worth, tessellated) representing the unit RGB cube", and the docstrings of the
  module pass it the segment counts, the planes and the keyword arguments. The model
  keeps the constructor's arguments, builds the mesh from the positions that
  \<^verbatim>\<open>create_box\<close> gives for these segment counts and planes (in a fresh array), and
  attaches the box to the \<^verbatim>\<open>parent\<close> keyword argument. When \<^verbatim>\<open>create_box\<close> raises,
  so does the constructor, and no box is made.
\<close>

definition Box_init ::
  "libs \<Rightarrow> int \<Rightarrow> int \<Rightarrow> int \<Rightarrow> string list option \<Rightarrow> colour \<Rightarrow> npfloat \<Rightarrow> ndarray option \<Rightarrow>
   bool \<Rightarrow> (int \<times> int) option \<Rightarrow> ident option \<Rightarrow> world \<Rightarrow> (py_error + ident) \<times> world" where
  "Box_init L width_segments height_segments depth_segments planes uniform_colour
     uniform_opacity vertex_colours wireframe wireframe_offset parent_kw w =
     (case create_box L width_segments height_segments depth_segments planes of
        Inl e \<Rightarrow> (Inl e, w)
      | Inr vertices \<Rightarrow>
          (case new_array (position vertices) w of
             (a, w1) \<Rightarrow>
               (case new_entity
                       (Box \<lparr>box_width_segments = width_segments,
                             box_height_segments = height_segments,
                             box_depth_segments = depth_segments,
                             box_planes = planes,
                             box_uniform_colour = uniform_colour,
                             box_uniform_opacity = uniform_opacity,
                             box_vertex_colours = vertex_colours,
                             box_wireframe = wireframe,
                             box_wireframe_offset = wireframe_offset,
                             mesh_vertices = a\<rparr>)
                       parent_kw w1 of
                  (box, w2) \<Rightarrow> (Inr box, w2))))"

text \<open>\<^verbatim>\<open>Line(pos, color, width=width, method=method, parent=parent)\<close>.\<close>

definition Line_init ::
  "addr \<Rightarrow> npfloat list list \<Rightarrow> npfloat \<Rightarrow> string \<Rightarrow> ident option \<Rightarrow> world \<Rightarrow> ident \<times> world" where
  "Line_init pos col width method parent_kw w =
     new_entity
       (Line \<lparr>line_pos = pos, line_color = col, line_width = width, line_method = method\<rparr>)
       parent_kw w"

section \<open>The module\<close>

text \<open>
  \<^verbatim>\<open>RGB_identity_cube\<close>. The positional \<^verbatim>\<open>*args\<close> are empty in every call of the module
  and the only keyword argument passed through \<^verbatim>\<open>**kwargs\<close> is \<^verbatim>\<open>parent\<close>. The result
  is the raised error or the box, together with the world the call leaves behind. An
  error of \<^verbatim>\<open>create_box\<close> at the first statement ends the call.
\<close>

definition RGB_identity_cube ::
  "libs \<Rightarrow> int \<Rightarrow> int \<Rightarrow> int \<Rightarrow> string list option \<Rightarrow> colour \<Rightarrow> npfloat \<Rightarrow> bool \<Rightarrow> bool \<Rightarrow>
   ident option \<Rightarrow> world \<Rightarrow> (py_error + ident) \<times> world" where
  "RGB_identity_cube L width_segments height_segments depth_segments planes uniform_colour
     uniform_opacity vertex_colours wireframe parent_kw w =
     (case create_box L width_segments height_segments depth_segments planes of
        Inl e \<Rightarrow> (Inl e, w)
      | Inr vertices \<Rightarrow>
          (let vertex_colours' = (if vertex_colours then Some (color vertices) else None)
           in case Box_init L width_segments height_segments depth_segments planes
                     uniform_colour uniform_opacity vertex_colours' wireframe (Some (1, 1))
                     parent_kw w of
                (Inl e, w1) \<Rightarrow> (Inl e, w1)
              | (Inr RGB_box, w1) \<Rightarrow>
                  (case get_vertices w1 RGB_box of
                     Inl e \<Rightarrow> (Inl e, w1)
                   | Inr vertices \<Rightarrow>
                       (let w2 = update_array vertices (iadd (nearest L) (Fin (1 / 2))) w1
                        in case set_vertices RGB_box vertices w2 of
                             Inl e \<Rightarrow> (Inl e, w2)
                           | Inr w3 \<Rightarrow> (Inr RGB_box, w3)))))"

text \<open>\<^verbatim>\<open>RGB_colourspace_volume_visual\<close>.\<close>

definition RGB_colourspace_volume_visual ::
  "libs \<Rightarrow> string \<Rightarrow> string \<Rightarrow> int \<Rightarrow> colour \<Rightarrow> npfloat \<Rightarrow> bool \<Rightarrow> colour \<Rightarrow> npfloat \<Rightarrow>
   ident option \<Rightarrow> world \<Rightarrow> (py_error + ident) \<times> world" where
  "RGB_colourspace_volume_visual L colourspace reference_colourspace segments uniform_colour
     uniform_opacity wireframe wireframe_colour wireframe_opacity parent_arg w =
     (case Node_init parent_arg w of
        (node, w0) \<Rightarrow>
     (case get_RGB_colourspace L colourspace of
        None \<Rightarrow> (Inl KeyError, w0)
      | Some cs \<Rightarrow>
     (case RGB_identity_cube L segments segments segments None uniform_colour uniform_opacity
             (\<not> truthy uniform_colour) False (Some node) w0 of
        (Inl e, w1) \<Rightarrow> (Inl e, w1)
      | (Inr RGB_cube_f, w1) \<Rightarrow>
     (case get_vertices w1 RGB_cube_f of
        Inl e \<Rightarrow> (Inl e, w1)
      | Inr vertices \<Rightarrow>
     (case array_at w1 vertices of
        None \<Rightarrow> (Inl AttributeError, w1)
      | Some vs \<Rightarrow>
     (let XYZ = RGB_to_XYZ L vs (whitepoint cs) (whitepoint cs) (RGB_to_XYZ_matrix cs)
      in case XYZ_to_reference_colourspace L XYZ (whitepoint cs) reference_colourspace of
           Inl e \<Rightarrow> (Inl e, w1)
         | Inr v \<Rightarrow>
     (case new_array v w1 of
        (val, w2) \<Rightarrow>
     (let w3 = update_array val zero_nan w2
      in case set_vertices RGB_cube_f val w3 of
           Inl e \<Rightarrow> (Inl e, w3)
         | Inr w4 \<Rightarrow>
             if wireframe then
               (case RGB_identity_cube L segments segments segments None wireframe_colour
                       wireframe_opacity (\<not> truthy wireframe_colour) True (Some node) w4 of
                  (Inl e, w5) \<Rightarrow> (Inl e, w5)
                | (Inr RGB_cube_w, w5) \<Rightarrow>
                    (case set_vertices RGB_cube_w val w5 of
                       Inl e \<Rightarrow> (Inl e, w5)
                     | Inr w6 \<Rightarrow> (Inr node, w6)))
             else (Inr node, w4)))))))))"

text \<open>
  \<^verbatim>\<open>np.vstack((ij[-1, ...], ij, ij[0, ...]))\<close>: the last row, the rows, the first row.
  Indexing an array without rows raises.
\<close>

definition close_polygon :: "ndarray \<Rightarrow> py_error + ndarray" where
  "close_polygon ij = (if ij = [] then Inl IndexError else Inr (last ij # ij @ [hd ij]))"

text \<open>\<^verbatim>\<open>RGB_colourspace_triangle_visual\<close>.\<close>

definition RGB_colourspace_triangle_visual ::
  "libs \<Rightarrow> string \<Rightarrow> string \<Rightarrow> colour \<Rightarrow> npfloat \<Rightarrow> npfloat \<Rightarrow> ident option \<Rightarrow> world \<Rightarrow>
   (py_error + ident) \<times> world" where
  "RGB_colourspace_triangle_visual L colourspace diagram uniform_colour uniform_opacity width
     parent_arg w =
     (let uniform_colour' =
            (case uniform_colour of
               None \<Rightarrow> [Fin (8 / 10), Fin (8 / 10), Fin (8 / 10)]
             | Some c \<Rightarrow> c)
      in case get_RGB_colourspace L colourspace of
           None \<Rightarrow> (Inl KeyError, w)
         | Some cs \<Rightarrow>
     (let illuminant = DEFAULT_PLOTTING_ILLUMINANT L
      in case CHROMATICITY_DIAGRAM_TRANSFORMATIONS L diagram of
           None \<Rightarrow> (Inl KeyError, w)
         | Some transformations \<Rightarrow>
     (case transformations ''XYZ_to_ij'' of
        None \<Rightarrow> (Inl KeyError, w)
      | Some XYZ_to_ij \<Rightarrow>
     (case close_polygon (XYZ_to_ij (xy_to_XYZ L (primaries cs)) illuminant) of
        Inl e \<Rightarrow> (Inl e, w)
      | Inr stacked \<Rightarrow>
     (case new_array stacked w of
        (ij, w1) \<Rightarrow>
     (let w2 = update_array ij zero_nan w1;
          RGB = [uniform_colour' @ [uniform_opacity]]
      in case Line_init ij RGB width ''agg'' parent_arg w2 of
           (line, w3) \<Rightarrow> (Inr line, w3)))))))"

section \<open>Reading the result of a call\<close>

definition box_at :: "world \<Rightarrow> ident \<Rightarrow> Box_fields option" where
  "box_at w i =
     (case entity_at w i of
        None \<Rightarrow> None
      | Some e \<Rightarrow> (case visual e of Box b \<Rightarrow> Some b | _ \<Rightarrow> None))"

definition line_at :: "world \<Rightarrow> ident \<Rightarrow> Line_fields option" where
  "line_at w i =
     (case entity_at w i of
        None \<Rightarrow> None
      | Some e \<Rightarrow> (case visual e of Line l \<Rightarrow> Some l | _ \<Rightarrow> None))"

text \<open>The vertex array a box's mesh holds, and the point array a line holds.\<close>

definition mesh_array :: "world \<Rightarrow> ident \<Rightarrow> ndarray option" where
  "mesh_array w i = (case box_at w i of None \<Rightarrow> None | Some b \<Rightarrow> array_at w (mesh_vertices b))"

definition line_points :: "world \<Rightarrow> ident \<Rightarrow> ndarray option" where
  "line_points w i = (case line_at w i of None \<Rightarrow> None | Some l \<Rightarrow> array_at w (line_pos l))"

definition all_finite :: "ndarray \<Rightarrow> bool" where
  "all_finite a = list_all isfinite (elements a)"

definition nan_free :: "ndarray \<Rightarrow> bool" where
  "nan_free a = list_all (\<lambda>x. \<not> isnan x) (elements a)"

definition mesh_all_finite :: "world \<Rightarrow> ident \<Rightarrow> bool" where
  "mesh_all_finite w i = (case mesh_array w i of None \<Rightarrow> False | Some a \<Rightarrow> all_finite a)"

definition line_all_finite :: "world \<Rightarrow> ident \<Rightarrow> bool" where
  "line_all_finite w i = (case line_points w i of None \<Rightarrow> False | Some a \<Rightarrow> all_finite a)"

text \<open>An element between two bounds: a finite element whose value is.\<close>

fun between :: "real \<Rightarrow> real \<Rightarrow> npfloat \<Rightarrow> bool" where
  "between lo hi (Fin x) = (lo \<le> x \<and> x \<le> hi)"
| "between lo hi _ = False"

text \<open>
  The geometry of a box and of a line: what the renderer draws, with every array
  reference replaced by the array it names.
\<close>

type_synonym box_geometry = "ndarray option \<times> ndarray option \<times> colour \<times> npfloat \<times> bool"

definition geometry_of_box :: "world \<Rightarrow> ident \<Rightarrow> box_geometry option" where
  "geometry_of_box w i =
     (case box_at w i of
        None \<Rightarrow> None
      | Some b \<Rightarrow>
          Some (array_at w (mesh_vertices b), box_vertex_colours b, box_uniform_colour b,
                box_uniform_opacity b, box_wireframe b))"

type_synonym line_geometry = "ndarray option \<times> npfloat list list \<times> npfloat \<times> string"

definition geometry_of_line :: "world \<Rightarrow> ident \<Rightarrow> line_geometry option" where
  "geometry_of_line w i =
     (case line_at w i of
        None \<Rightarrow> None
      | Some l \<Rightarrow> Some (array_at w (line_pos l), line_color l, line_width l, line_method l))"

text \<open>The geometry a call has built: of the returned box, of the returned node's
  children, of the returned line. A raised error is kept as it is.\<close>

definition cube_geometry :: "(py_error + ident) \<times> world \<Rightarrow> py_error + box_geometry option" where
  "cube_geometry res =
     (case res of (Inl e, w) \<Rightarrow> Inl e | (Inr i, w) \<Rightarrow> Inr (geometry_of_box w i))"

definition volume_geometry ::
  "(py_error + ident) \<times> world \<Rightarrow> py_error + box_geometry option list" where
  "volume_geometry res =
     (case res of
        (Inl e, w) \<Rightarrow> Inl e
      | (Inr n, w) \<Rightarrow> Inr (map (geometry_of_box w) (children w n)))"

definition triangle_geometry :: "(py_error + ident) \<times> world \<Rightarrow> py_error + line_geometry option" where
  "triangle_geometry res =
     (case res of (Inl e, w) \<Rightarrow> Inl e | (Inr i, w) \<Rightarrow> Inr (geometry_of_line w i))"

text \<open>A call extends a world when every object and array that existed is still there,
  unchanged, at its place.\<close>

definition extends :: "world \<Rightarrow> world \<Rightarrow> bool" where
  "extends w w' =
     (take (length (entities w)) (entities w') = entities w \<and>
      take (length (heap w)) (heap w') = heap w)"

text \<open>The parent handed to a constructor is \<^verbatim>\<open>None\<close> or an object of the scene.\<close>

definition parent_ok :: "world \<Rightarrow> ident option \<Rightarrow> bool" where
  "parent_ok w p = (case p of None \<Rightarrow> True | Some q \<Rightarrow> q < length (entities w))"

text \<open>
  The vertices of the identity cube for a segment count, as lemma
  \<open>RGB_identity_cube_eq\<close> below gives them (the error of \<^verbatim>\<open>create_box\<close> when it
  raises), and the box object that \<^verbatim>\<open>RGB_colourspace_volume_visual\<close> builds from the
  tessellation \<open>bv\<close> for a colour, an opacity and a wireframe flag under a node.
\<close>

definition cube_vertices :: "libs \<Rightarrow> int \<Rightarrow> py_error + ndarray" where
  "cube_vertices L seg =
     (case create_box L seg seg seg None of
        Inl e \<Rightarrow> Inl e
      | Inr bv \<Rightarrow> Inr (iadd (nearest L) (Fin (1 / 2)) (position bv)))"

definition cube_entity ::
  "box_vertices \<Rightarrow> int \<Rightarrow> colour \<Rightarrow> npfloat \<Rightarrow> bool \<Rightarrow> ident \<Rightarrow> addr \<Rightarrow> entity" where
  "cube_entity bv seg uc uo wfr node a =
     \<lparr>visual = Box \<lparr>box_width_segments = seg, box_height_segments = seg,
                     box_depth_segments = seg, box_planes = None,
                     box_uniform_colour = uc, box_uniform_opacity = uo,
                     box_vertex_colours = (if truthy uc then None else Some (color bv)),
                     box_wireframe = wfr, box_wireframe_offset = Some (1, 1),
                     mesh_vertices = a\<rparr>,
      parent = Some node\<rparr>"

text \<open>
  The two-stage conversion of the identity cube's vertices: \<open>RGB\<close> to \<open>XYZ\<close>, then \<open>XYZ\<close>
  to the reference colourspace. There are no vertices to convert when \<^verbatim>\<open>create_box\<close>
  raises.
\<close>

definition reference_vertices ::
  "libs \<Rightarrow> RGB_Colourspace \<Rightarrow> string \<Rightarrow> int \<Rightarrow> py_error + ndarray" where
  "reference_vertices L cs reference_colourspace seg =
     (case cube_vertices L seg of
        Inl e \<Rightarrow> Inl e
      | Inr vs \<Rightarrow>
          XYZ_to_reference_colourspace L
            (RGB_to_XYZ L vs (whitepoint cs) (whitepoint cs) (RGB_to_XYZ_matrix cs))
            (whitepoint cs) reference_colourspace)"

text \<open>
  An array \<open>a\<close> is \<open>v\<close> with its NaN elements zeroed when it has the shape of \<open>v\<close>, holds
  \<open>0\<close> where \<open>v\<close> holds NaN and the element of \<open>v\<close> everywhere else.
\<close>

definition zeroed_from :: "ndarray \<Rightarrow> ndarray \<Rightarrow> bool" where
  "zeroed_from v a = list_all2 (list_all2 (\<lambda>x y. y = (if x = NaN then Fin 0 else x))) v a"

definition mesh_zeroed_from :: "ndarray \<Rightarrow> world \<Rightarrow> ident \<Rightarrow> bool" where
  "mesh_zeroed_from v w i =
     (case mesh_array w i of None \<Rightarrow> False | Some a \<Rightarrow> zeroed_from v a \<and> nan_free a)"

definition line_zeroed_from :: "ndarray \<Rightarrow> world \<Rightarrow> ident \<Rightarrow> bool" where
  "line_zeroed_from v w i =
     (case line_points w i of None \<Rightarrow> False | Some a \<Rightarrow> zeroed_from v a \<and> nan_free a)"

text \<open>
  A box holds an array; an array is another with a scalar added to every element, the
  sums rounded by \<open>r\<close>; the vertices of a box lie in the unit cube.
\<close>

definition mesh_holds :: "ndarray \<Rightarrow> world \<Rightarrow> ident \<Rightarrow> bool" where
  "mesh_holds a w i = (mesh_array w i = Some a)"

definition translated_by :: "(real \<Rightarrow> real) \<Rightarrow> npfloat \<Rightarrow> ndarray \<Rightarrow> ndarray \<Rightarrow> bool" where
  "translated_by r c v a = list_all2 (list_all2 (\<lambda>x y. y = fadd r x c)) v a"

definition mesh_in_unit_cube :: "world \<Rightarrow> ident \<Rightarrow> bool" where
  "mesh_in_unit_cube w i =
     (case mesh_array w i of None \<Rightarrow> False | Some a \<Rightarrow> list_all (between 0 1) (elements a))"

text \<open>An object of the scene is a box; an object is a line attached to a parent.\<close>

definition is_box :: "world \<Rightarrow> ident \<Rightarrow> bool" where
  "is_box w i = (case box_at w i of None \<Rightarrow> False | Some b \<Rightarrow> True)"

definition is_line_under :: "ident option \<Rightarrow> world \<Rightarrow> ident \<Rightarrow> bool" where
  "is_line_under p w i =
     (case entity_at w i of
        None \<Rightarrow> False
      | Some e \<Rightarrow> (case visual e of Line l \<Rightarrow> parent e = p | _ \<Rightarrow> False))"

definition attached_to :: "ident \<Rightarrow> world \<Rightarrow> ident \<Rightarrow> bool" where
  "attached_to n w i =
     (case entity_at w i of None \<Rightarrow> False | Some e \<Rightarrow> parent e = Some n)"

section \<open>Sample libraries and worlds\<close>

text \<open>
  Division of two elements with the IEEE results at zero and at infinity (signed zeros
  apart): used by the sample transformations below.
\<close>

fun fdiv :: "npfloat \<Rightarrow> npfloat \<Rightarrow> npfloat" where
  "fdiv NaN y = NaN"
| "fdiv x NaN = NaN"
| "fdiv (Fin a) (Fin b) =
     (if b = 0 then (if a = 0 then NaN else if 0 < a then PInf else NInf) else Fin (a / b))"
| "fdiv (Fin a) y = Fin 0"
| "fdiv PInf (Fin b) = (if 0 \<le> b then PInf else NInf)"
| "fdiv NInf (Fin b) = (if 0 \<le> b then NInf else PInf)"
| "fdiv x y = NaN"

text \<open>A box tessellation with three vertices of the unit box centred at the origin.\<close>

definition sample_box :: box_vertices where
  "sample_box =
     \<lparr>position = [[Fin (- 1 / 2), Fin (- 1 / 2), Fin (- 1 / 2)],
                  [Fin (1 / 2), Fin (- 1 / 2), Fin (- 1 / 2)],
                  [Fin (1 / 2), Fin (1 / 2), Fin (1 / 2)]],
      color = [[Fin 0, Fin 0, Fin 0, Fin 1],
               [Fin 1, Fin 0, Fin 0, Fin 1],
               [Fin 1, Fin 1, Fin 1, Fin 1]]\<rparr>"

definition sample_colourspace :: RGB_Colourspace where
  "sample_colourspace =
     \<lparr>primaries = [[Fin (64 / 100), Fin (33 / 100)],
                   [Fin (30 / 100), Fin (60 / 100)],
                   [Fin (15 / 100), Fin (6 / 100)]],
      whitepoint = [Fin (3127 / 10000), Fin (3290 / 10000)],
      RGB_to_XYZ_matrix = [[Fin 1, Fin 0, Fin 0], [Fin 0, Fin 1, Fin 0], [Fin 0, Fin 0, Fin 1]]\<rparr>"

text \<open>\<open>X Y Z\<close> to \<open>x y Y\<close>: the chromaticity divides by \<open>X + Y + Z\<close>, which is zero at black.\<close>

fun xyY_row :: "npfloat list \<Rightarrow> npfloat list" where
  "xyY_row [X, Y, Z] =
     [fdiv X (fadd (\<lambda>x. x) X (fadd (\<lambda>x. x) Y Z)), fdiv Y (fadd (\<lambda>x. x) X (fadd (\<lambda>x. x) Y Z)), Y]"
| "xyY_row row = row"

definition sample_reference :: "ndarray \<Rightarrow> npfloat list \<Rightarrow> string \<Rightarrow> py_error + ndarray" where
  "sample_reference XYZ illuminant name =
     (if name = ''CIE XYZ'' then Inr XYZ
      else if name = ''CIE xyY'' then Inr (map xyY_row XYZ)
      else Inl ValueError)"

definition sample_libs :: libs where
  "sample_libs =
     \<lparr>create_box = (\<lambda>ws hs ds planes. Inr sample_box),
      nearest = (\<lambda>x. x),
      get_RGB_colourspace = [''Rec. 709'' \<mapsto> sample_colourspace],
      RGB_to_XYZ = (\<lambda>RGB w1 w2 M. RGB),
      XYZ_to_reference_colourspace = sample_reference,
      xy_to_XYZ = map (\<lambda>row. row @ [Fin 1]),
      CHROMATICITY_DIAGRAM_TRANSFORMATIONS =
        [''CIE 1931'' \<mapsto> [''XYZ_to_ij'' \<mapsto> (\<lambda>XYZ illuminant. map (take 2) XYZ)]],
      DEFAULT_PLOTTING_ILLUMINANT = [Fin (3127 / 10000), Fin (3290 / 10000)]\<rparr>"

text \<open>
  Libraries whose transformations divide by a coordinate: the reference colourspace takes
  the reciprocal of every coordinate, the diagram divides the first by the second.
\<close>

fun slope_row :: "npfloat list \<Rightarrow> npfloat list" where
  "slope_row (X # Y # rest) = [fdiv X Y, Y]"
| "slope_row row = row"

definition dividing_libs :: libs where
  "dividing_libs =
     sample_libs
       \<lparr>get_RGB_colourspace :=
          [''Rec. 709'' \<mapsto>
             sample_colourspace\<lparr>primaries := [[Fin 1, Fin 0], [Fin 0, Fin 1], [Fin 0, Fin 0]]\<rparr>],
        XYZ_to_reference_colourspace :=
          (\<lambda>XYZ illuminant name. Inr (map_array (fdiv (Fin 1)) XYZ)),
        CHROMATICITY_DIAGRAM_TRANSFORMATIONS :=
          [''CIE 1931'' \<mapsto> [''XYZ_to_ij'' \<mapsto> (\<lambda>XYZ illuminant. map slope_row XYZ)]]\<rparr>"

text \<open>
  Libraries nearer to vispy and numpy: \<^verbatim>\<open>create_box\<close> refuses an empty list of planes
  and a negative segment count, divides by the segment counts (so a count of zero gives
  NaN coordinates), and otherwise gives a tessellation with a coordinate that the
  rounded sum does not meet exactly; the elements are the multiples of a quarter.
\<close>

definition quarter :: "real \<Rightarrow> real" where
  "quarter x = of_int (round (4 * x)) / 4"

definition sixth_box :: box_vertices where
  "sixth_box =
     \<lparr>position = [[Fin (- 1 / 2), Fin (1 / 6), Fin (1 / 2)]],
      color = [[Fin 0, Fin (2 / 3), Fin 1, Fin 1]]\<rparr>"

definition degenerate_box :: box_vertices where
  "degenerate_box =
     \<lparr>position = [[NaN, NaN, Fin (- 1 / 2)]],
      color = [[NaN, NaN, NaN, Fin 1]]\<rparr>"

definition strict_create_box ::
  "int \<Rightarrow> int \<Rightarrow> int \<Rightarrow> string list option \<Rightarrow> py_error + box_vertices" where
  "strict_create_box ws hs ds planes =
     (if planes = Some [] \<or> ws < 0 \<or> hs < 0 \<or> ds < 0 then Inl ValueError
      else if ws = 0 \<or> hs = 0 \<or> ds = 0 then Inr degenerate_box
      else Inr sixth_box)"

definition strict_libs :: libs where
  "strict_libs = sample_libs\<lparr>create_box := strict_create_box, nearest := quarter\<rparr>"

definition empty_world :: world where
  "empty_world = \<lparr>entities = [], heap = []\<rparr>"

text \<open>A scene that already holds a node, with an older array in the store.\<close>

definition scene_world :: world where
  "scene_world = \<lparr>entities = [\<lparr>visual = Node, parent = None\<rparr>], heap = [[[Fin 7]]]\<rparr>"

text \<open>The two constructors called with the sample libraries in the scene.\<close>

definition sample_volume :: "(py_error + ident) \<times> world" where
  "sample_volume =
     RGB_colourspace_volume_visual sample_libs ''Rec. 709'' ''CIE xyY'' 16 None (Fin (1 / 2))
       True None (Fin 1) (Some 0) scene_world"

definition sample_triangle :: "(py_error + ident) \<times> world" where
  "sample_triangle =
     RGB_colourspace_triangle_visual sample_libs ''Rec. 709'' ''CIE 1931'' None (Fin 1) (Fin 4)
       (Some 0) scene_world"

text \<open>The same calls with the dividing libraries.\<close>

definition dividing_volume :: "(py_error + ident) \<times> world" where
  "dividing_volume =
     RGB_colourspace_volume_visual dividing_libs ''Rec. 709'' ''CIE xyY'' 16 None (Fin (1 / 2))
       True None (Fin 1) (Some 0) scene_world"

definition dividing_triangle :: "(py_error + ident) \<times> world" where
  "dividing_triangle =
     RGB_colourspace_triangle_visual dividing_libs ''Rec. 709'' ''CIE 1931'' None (Fin 1) (Fin 4)
       (Some 0) scene_world"

text \<open>The scene without objects, and the three constructors called in it.\<close>

definition empty_volume :: "(py_error + ident) \<times> world" where
  "empty_volume =
     RGB_colourspace_volume_visual sample_libs ''Rec. 709'' ''CIE xyY'' 16 None (Fin (1 / 2))
       True None (Fin 1) None empty_world"

definition empty_triangle :: "(py_error + ident) \<times> world" where
  "empty_triangle =
     RGB_colourspace_triangle_visual sample_libs ''Rec. 709'' ''CIE 1931'' None (Fin 1) (Fin 4)
       None empty_world"

definition empty_cube :: "(py_error + ident) \<times> world" where
  "empty_cube =
     RGB_identity_cube sample_libs 16 16 16 None None (Fin 1) True False None empty_world"

definition sample_cube :: "(py_error + ident) \<times> world" where
  "sample_cube =
     RGB_identity_cube sample_libs 16 16 16 None None (Fin 1) True False (Some 0) scene_world"

text \<open>The identity cube asked of the strict libraries: with an empty list of planes,
  with a negative segment count, with no segments, and with sixteen segments.\<close>

definition no_planes_cube :: "(py_error + ident) \<times> world" where
  "no_planes_cube =
     RGB_identity_cube strict_libs 16 16 16 (Some []) None (Fin 1) True False None empty_world"

definition negative_cube :: "(py_error + ident) \<times> world" where
  "negative_cube =
     RGB_identity_cube strict_libs (- 1) 16 16 None None (Fin 1) True False None empty_world"

definition no_segments_cube :: "(py_error + ident) \<times> world" where
  "no_segments_cube =
     RGB_identity_cube strict_libs 0 0 0 None None (Fin 1) True False None empty_world"

definition strict_cube :: "(py_error + ident) \<times> world" where
  "strict_cube =
     RGB_identity_cube strict_libs 16 16 16 None None (Fin 1) True False None empty_world"

section \<open>What a call returns and leaves behind\<close>

text \<open>
  \<^verbatim>\<open>RGB_identity_cube\<close> raises what \<^verbatim>\<open>create_box\<close> raises and leaves the world as
  it was; when \<^verbatim>\<open>create_box\<close> returns, it appends one array and one box.
\<close>

lemma RGB_identity_cube_error:
  assumes "create_box L ws hs ds planes = Inl e"
  shows "RGB_identity_cube L ws hs ds planes uc uo vc wfr p w = (Inl e, w)"
  using assms by (simp add: RGB_identity_cube_def)

lemma RGB_identity_cube_eq:
  assumes "create_box L ws hs ds planes = Inr bv"
  shows "RGB_identity_cube L ws hs ds planes uc uo vc wfr p w =
     (Inr (length (entities w)),
      w\<lparr>entities := entities w @
           [\<lparr>visual = Box \<lparr>box_width_segments = ws, box_height_segments = hs,
                           box_depth_segments = ds, box_planes = planes,
                           box_uniform_colour = uc, box_uniform_opacity = uo,
                           box_vertex_colours = (if vc then Some (color bv) else None),
                           box_wireframe = wfr, box_wireframe_offset = Some (1, 1),
                           mesh_vertices = length (heap w)\<rparr>,
             parent = p\<rparr>],
        heap := heap w @ [iadd (nearest L) (Fin (1 / 2)) (position bv)]\<rparr>)"
  using assms
  by (simp add: RGB_identity_cube_def Box_init_def new_array_def new_entity_def get_vertices_def
      set_vertices_def entity_at_def update_array_def Let_def)

lemma reference_vertices_created:
  assumes "reference_vertices L cs ref seg = Inr v"
  obtains bv where "create_box L seg seg seg None = Inr bv"
  using assms by (auto simp: reference_vertices_def cube_vertices_def split: sum.splits)

lemma volume_eq:
  assumes cs: "get_RGB_colourspace L c = Some cs"
    and cb: "create_box L seg seg seg None = Inr bv"
    and v: "reference_vertices L cs ref seg = Inr v"
  shows "RGB_colourspace_volume_visual L c ref seg uc uo wfr wc wo p w =
     (Inr (length (entities w)),
      w\<lparr>entities := entities w @
           (\<lparr>visual = Node, parent = p\<rparr> #
            cube_entity bv seg uc uo False (length (entities w)) (Suc (length (heap w))) #
            (if wfr then [cube_entity bv seg wc wo True (length (entities w)) (Suc (length (heap w)))]
             else [])),
        heap := heap w @
           (iadd (nearest L) (Fin (1 / 2)) (position bv) # zero_nan v #
            (if wfr then [iadd (nearest L) (Fin (1 / 2)) (position bv)] else []))\<rparr>)"
proof -
  have pipeline: "XYZ_to_reference_colourspace L
      (RGB_to_XYZ L (iadd (nearest L) (Fin (1 / 2)) (position bv)) (whitepoint cs) (whitepoint cs)
         (RGB_to_XYZ_matrix cs))
      (whitepoint cs) ref = Inr v"
    using v by (simp add: reference_vertices_def cube_vertices_def cb)
  show ?thesis
    using cs pipeline
    by (simp add: RGB_colourspace_volume_visual_def RGB_identity_cube_eq [OF cb] Node_init_def
        new_array_def new_entity_def get_vertices_def set_vertices_def entity_at_def array_at_def
        update_array_def Let_def cube_entity_def nth_append list_update_append)
qed

lemma volume_create_box_error:
  assumes "get_RGB_colourspace L c = Some cs" and "create_box L seg seg seg None = Inl e"
  shows "RGB_colourspace_volume_visual L c ref seg uc uo wfr wc wo p w =
     (Inl e, w\<lparr>entities := entities w @ [\<lparr>visual = Node, parent = p\<rparr>]\<rparr>)"
  using assms
  by (simp add: RGB_colourspace_volume_visual_def RGB_identity_cube_error Node_init_def
      new_entity_def)

lemma volume_KeyError:
  assumes "get_RGB_colourspace L c = None"
  shows "RGB_colourspace_volume_visual L c ref seg uc uo wfr wc wo p w =
     (Inl KeyError, w\<lparr>entities := entities w @ [\<lparr>visual = Node, parent = p\<rparr>]\<rparr>)"
  using assms
  by (simp add: RGB_colourspace_volume_visual_def Node_init_def new_entity_def)

lemma triangle_colourspace_KeyError:
  assumes "get_RGB_colourspace L c = None"
  shows "RGB_colourspace_triangle_visual L c diagram uc uo width p w = (Inl KeyError, w)"
  using assms by (simp add: RGB_colourspace_triangle_visual_def)

lemma triangle_diagram_KeyError:
  assumes "CHROMATICITY_DIAGRAM_TRANSFORMATIONS L diagram = None"
  shows "RGB_colourspace_triangle_visual L c diagram uc uo width p w = (Inl KeyError, w)"
  using assms by (simp add: RGB_colourspace_triangle_visual_def split: option.splits)



lemma upt_split: "[0..<m + k] = [0..<m] @ map (\<lambda>j. j + m) [0..<k]"
proof -
  have "[0..<m + k] = [0..<m] @ [m..<m + k]"
    by (rule upt_add_eq_append) simp
  also have "[m..<m + k] = map (\<lambda>j. j + m) [0..<k]"
    by (simp add: map_add_upt add.commute)
  finally show ?thesis .
qed

lemma children_new:
  assumes "wf_world w"
  shows "children (w\<lparr>entities := entities w @ es, heap := h\<rparr>) (length (entities w)) =
     map (\<lambda>j. j + length (entities w))
       (filter (\<lambda>j. parent (es ! j) = Some (length (entities w))) [0..<length es])"
proof -
  let ?m = "length (entities w)"
  have no_old: "\<And>i. i < ?m \<Longrightarrow> parent (entities w ! i) \<noteq> Some ?m"
  proof
    fix i assume i: "i < ?m" and p: "parent (entities w ! i) = Some ?m"
    from assms i have "case parent (entities w ! i) of None \<Rightarrow> True | Some q \<Rightarrow> q < ?m"
      by (simp add: wf_world_def list_all_length)
    with p show False by simp
  qed
  have old: "filter (\<lambda>i. parent ((entities w @ es) ! i) = Some ?m) [0..<?m] = []"
    using no_old by (auto simp: filter_empty_conv nth_append)
  have new: "filter (\<lambda>i. parent ((entities w @ es) ! i) = Some ?m) (map (\<lambda>j. j + ?m) [0..<length es])
      = map (\<lambda>j. j + ?m) (filter (\<lambda>j. parent (es ! j) = Some ?m) [0..<length es])"
    by (simp add: filter_map comp_def nth_append)
  have "children (w\<lparr>entities := entities w @ es, heap := h\<rparr>) ?m =
      filter (\<lambda>i. parent ((entities w @ es) ! i) = Some ?m) [0..<?m + length es]"
    by (simp add: children_def)
  also have "\<dots> = filter (\<lambda>i. parent ((entities w @ es) ! i) = Some ?m)
      ([0..<?m] @ map (\<lambda>j. j + ?m) [0..<length es])"
    by (simp only: upt_split)
  also have "\<dots> = map (\<lambda>j. j + ?m) (filter (\<lambda>j. parent (es ! j) = Some ?m) [0..<length es])"
    by (simp only: filter_append old new append_Nil)
  finally show ?thesis .
qed

lemma volume_ok:
  assumes "get_RGB_colourspace L c = Some cs" and "reference_vertices L cs ref seg = Inr v"
  shows "fst (RGB_colourspace_volume_visual L c ref seg uc uo wfr wc wo p w) = Inr (length (entities w))"
proof -
  obtain bv where cb: "create_box L seg seg seg None = Inr bv"
    using assms(2) by (rule reference_vertices_created)
  show ?thesis by (simp add: volume_eq [OF assms(1) cb assms(2)])
qed

lemma volume_children:
  assumes "get_RGB_colourspace L c = Some cs" and "reference_vertices L cs ref seg = Inr v"
    and "wf_world w" and "parent_ok w p"
  shows "children (snd (RGB_colourspace_volume_visual L c ref seg uc uo wfr wc wo p w)) (length (entities w)) =
     Suc (length (entities w)) # (if wfr then [Suc (Suc (length (entities w)))] else [])"
proof -
  obtain bv where cb: "create_box L seg seg seg None = Inr bv"
    using assms(2) by (rule reference_vertices_created)
  have p: "p \<noteq> Some (length (entities w))"
    using assms(4) by (auto simp: parent_ok_def)
  show ?thesis
    using p
    by (simp add: volume_eq [OF assms(1) cb assms(2)] children_new [OF assms(3)] cube_entity_def)
qed

lemma volume_node:
  assumes "get_RGB_colourspace L c = Some cs" and "reference_vertices L cs ref seg = Inr v"
  shows "entity_at (snd (RGB_colourspace_volume_visual L c ref seg uc uo wfr wc wo p w)) (length (entities w)) =
     Some \<lparr>visual = Node, parent = p\<rparr>"
proof -
  obtain bv where cb: "create_box L seg seg seg None = Inr bv"
    using assms(2) by (rule reference_vertices_created)
  show ?thesis
    by (simp add: volume_eq [OF assms(1) cb assms(2)] entity_at_def nth_append)
qed

lemma volume_filled:
  assumes "get_RGB_colourspace L c = Some cs" and "create_box L seg seg seg None = Inr bv"
    and "reference_vertices L cs ref seg = Inr v"
  shows "entity_at (snd (RGB_colourspace_volume_visual L c ref seg uc uo wfr wc wo p w)) (Suc (length (entities w))) =
     Some (cube_entity bv seg uc uo False (length (entities w)) (Suc (length (heap w))))"
  by (simp add: volume_eq [OF assms] entity_at_def nth_append)

lemma volume_wireframe:
  assumes "get_RGB_colourspace L c = Some cs" and "create_box L seg seg seg None = Inr bv"
    and "reference_vertices L cs ref seg = Inr v"
  shows "entity_at (snd (RGB_colourspace_volume_visual L c ref seg uc uo True wc wo p w)) (Suc (Suc (length (entities w)))) =
     Some (cube_entity bv seg wc wo True (length (entities w)) (Suc (length (heap w))))"
  by (simp add: volume_eq [OF assms] entity_at_def nth_append)

lemma volume_array:
  assumes "get_RGB_colourspace L c = Some cs" and "reference_vertices L cs ref seg = Inr v"
  shows "array_at (snd (RGB_colourspace_volume_visual L c ref seg uc uo wfr wc wo p w)) (Suc (length (heap w))) =
     Some (zero_nan v)"
proof -
  obtain bv where cb: "create_box L seg seg seg None = Inr bv"
    using assms(2) by (rule reference_vertices_created)
  show ?thesis
    by (simp add: volume_eq [OF assms(1) cb assms(2)] array_at_def nth_append)
qed

lemma zeroed_from_zero_nan: "zeroed_from v (zero_nan v)"
proof -
  have "\<And>x. nan_to_zero x = (if x = NaN then Fin 0 else x)"
    by (case_tac x) (simp_all add: nan_to_zero_def)
  then show ?thesis
    by (simp add: zeroed_from_def zero_nan_def map_array_def list_all2_map2 list_all2_same)
qed

lemma nan_free_zero_nan: "nan_free (zero_nan v)"
proof -
  have "\<And>x. \<not> isnan (nan_to_zero x)"
    by (case_tac x) (simp_all add: nan_to_zero_def)
  then show ?thesis
    by (auto simp: nan_free_def zero_nan_def map_array_def elements_def list_all_iff)
qed

lemma triangle_ok:
  assumes "get_RGB_colourspace L c = Some cs"
    and "CHROMATICITY_DIAGRAM_TRANSFORMATIONS L diagram = Some t"
    and "t ''XYZ_to_ij'' = Some XYZ_to_ij"
    and "close_polygon (XYZ_to_ij (xy_to_XYZ L (primaries cs)) (DEFAULT_PLOTTING_ILLUMINANT L)) = Inr stacked"
  shows "RGB_colourspace_triangle_visual L c diagram uc uo width p w =
     (Inr (length (entities w)),
      w\<lparr>entities := entities w @
           [\<lparr>visual = Line \<lparr>line_pos = length (heap w),
                            line_color =
                              [(case uc of None \<Rightarrow> [Fin (8 / 10), Fin (8 / 10), Fin (8 / 10)]
                                | Some c \<Rightarrow> c) @ [uo]],
                            line_width = width, line_method = ''agg''\<rparr>,
             parent = p\<rparr>],
        heap := heap w @ [zero_nan stacked]\<rparr>)"
  using assms
  by (simp add: RGB_colourspace_triangle_visual_def new_array_def
      Line_init_def new_entity_def update_array_def Let_def)

lemma triangle_points:
  assumes "get_RGB_colourspace L c = Some cs"
    and "CHROMATICITY_DIAGRAM_TRANSFORMATIONS L diagram = Some t"
    and "t ''XYZ_to_ij'' = Some XYZ_to_ij"
    and "close_polygon (XYZ_to_ij (xy_to_XYZ L (primaries cs)) (DEFAULT_PLOTTING_ILLUMINANT L)) = Inr stacked"
  shows "line_points (snd (RGB_colourspace_triangle_visual L c diagram uc uo width p w)) (length (entities w)) =
     Some (zero_nan stacked)"
  by (simp add: triangle_ok [OF assms] line_points_def line_at_def entity_at_def array_at_def)

lemma identity_cube_mesh:
  assumes "create_box L ws hs ds planes = Inr bv"
  shows "mesh_array (snd (RGB_identity_cube L ws hs ds planes uc uo vc wfr p w)) (length (entities w)) =
     Some (iadd (nearest L) (Fin (1 / 2)) (position bv))"
  by (simp add: RGB_identity_cube_eq [OF assms] mesh_array_def box_at_def entity_at_def
      array_at_def)

lemma volume_mesh_filled:
  assumes "get_RGB_colourspace L c = Some cs" and "reference_vertices L cs ref seg = Inr v"
  shows "mesh_array (snd (RGB_colourspace_volume_visual L c ref seg uc uo wfr wc wo p w))
           (Suc (length (entities w))) = Some (zero_nan v)"
proof -
  obtain bv where cb: "create_box L seg seg seg None = Inr bv"
    using assms(2) by (rule reference_vertices_created)
  show ?thesis
    by (simp add: mesh_array_def box_at_def volume_filled [OF assms(1) cb assms(2)]
        cube_entity_def volume_array [OF assms])
qed

lemma volume_mesh_wireframe:
  assumes "get_RGB_colourspace L c = Some cs" and "reference_vertices L cs ref seg = Inr v"
  shows "mesh_array (snd (RGB_colourspace_volume_visual L c ref seg uc uo True wc wo p w))
           (Suc (Suc (length (entities w)))) = Some (zero_nan v)"
proof -
  obtain bv where cb: "create_box L seg seg seg None = Inr bv"
    using assms(2) by (rule reference_vertices_created)
  show ?thesis
    by (simp add: mesh_array_def box_at_def volume_wireframe [OF assms(1) cb assms(2)]
        cube_entity_def volume_array [OF assms])
qed

lemma between_translated:
  assumes "mono r" and "r 0 = 0" and "r 1 = 1" and "between (- 1 / 2) (1 / 2) x"
  shows "between 0 1 (fadd r x (Fin (1 / 2)))"
proof (cases x)
  case (Fin a)
  then have a: "- 1 / 2 \<le> a" "a \<le> 1 / 2"
    using assms(4) by simp_all
  have "r 0 \<le> r (a + 1 / 2)"
    using assms(1) a(1) by (auto simp: mono_def)
  moreover have "r (a + 1 / 2) \<le> r 1"
    using assms(1) a(2) by (auto simp: mono_def)
  ultimately show ?thesis
    using Fin assms(2,3) by simp
qed (use assms(4) in simp_all)

lemma zero_nan_id:
  assumes "nan_free a"
  shows "zero_nan a = a"
proof -
  have "\<And>row x. row \<in> set a \<Longrightarrow> x \<in> set row \<Longrightarrow> nan_to_zero x = x"
    using assms by (auto simp: nan_free_def elements_def list_all_iff nan_to_zero_def)
  then show ?thesis
    by (simp add: zero_nan_def map_array_def map_idI)
qed

lemma nan_free_stacked:
  assumes "nan_free ij" and "ij \<noteq> []"
  shows "nan_free (last ij # ij @ [hd ij])"
  using assms by (auto simp: nan_free_def elements_def list_all_iff)

lemma stacked_nth:
  assumes "ij \<noteq> []"
  shows "length (zero_nan (last ij # ij @ [hd ij])) = length ij + 2"
    and "zero_nan (last ij # ij @ [hd ij]) ! 0 = map nan_to_zero (last ij)"
    and "last (zero_nan (last ij # ij @ [hd ij])) = map nan_to_zero (hd ij)"
    and "k < length ij \<Longrightarrow> zero_nan (last ij # ij @ [hd ij]) ! Suc k = map nan_to_zero (ij ! k)"
    and "zero_nan (last ij # ij @ [hd ij]) ! length ij = map nan_to_zero (last ij)"
proof -
  show "length (zero_nan (last ij # ij @ [hd ij])) = length ij + 2"
    by (simp add: zero_nan_def map_array_def)
  show "zero_nan (last ij # ij @ [hd ij]) ! 0 = map nan_to_zero (last ij)"
    by (simp add: zero_nan_def map_array_def)
  show "last (zero_nan (last ij # ij @ [hd ij])) = map nan_to_zero (hd ij)"
    by (simp add: zero_nan_def map_array_def)
  show "k < length ij \<Longrightarrow> zero_nan (last ij # ij @ [hd ij]) ! Suc k = map nan_to_zero (ij ! k)"
    by (simp add: zero_nan_def map_array_def nth_append)
  have "0 < length ij" using assms by simp
  then obtain m where m: "length ij = Suc m" by (cases "length ij") auto
  have "zero_nan (last ij # ij @ [hd ij]) ! Suc m = map nan_to_zero (ij ! m)"
    using m by (simp add: zero_nan_def map_array_def nth_append)
  moreover have "last ij = ij ! m"
    using assms m by (simp add: last_conv_nth)
  ultimately show "zero_nan (last ij # ij @ [hd ij]) ! length ij = map nan_to_zero (last ij)"
    using m by simp
qed

lemma stacked_predecessor:
  assumes "ij \<noteq> []" and "k < length ij"
  shows "zero_nan (last ij # ij @ [hd ij]) ! k =
     map nan_to_zero (ij ! ((k + length ij - 1) mod length ij))"
proof (cases k)
  case 0
  then show ?thesis
    using assms by (simp add: zero_nan_def map_array_def last_conv_nth)
next
  case (Suc j)
  then have j: "j < length ij" using assms(2) by simp
  have "(k + length ij - 1) mod length ij = j"
    using Suc j by simp
  then show ?thesis
    using Suc j stacked_nth(4) [OF assms(1) j] by simp
qed

lemma triangle_operator_KeyError:
  assumes "get_RGB_colourspace L c = Some cs"
    and "CHROMATICITY_DIAGRAM_TRANSFORMATIONS L diagram = Some t"
    and "t ''XYZ_to_ij'' = None"
  shows "RGB_colourspace_triangle_visual L c diagram uc uo width p w = (Inl KeyError, w)"
  using assms by (simp add: RGB_colourspace_triangle_visual_def)

lemma triangle_stack_error:
  assumes "get_RGB_colourspace L c = Some cs"
    and "CHROMATICITY_DIAGRAM_TRANSFORMATIONS L diagram = Some t"
    and "t ''XYZ_to_ij'' = Some XYZ_to_ij"
    and "close_polygon (XYZ_to_ij (xy_to_XYZ L (primaries cs)) (DEFAULT_PLOTTING_ILLUMINANT L)) = Inl e"
  shows "RGB_colourspace_triangle_visual L c diagram uc uo width p w = (Inl e, w)"
  using assms by (simp add: RGB_colourspace_triangle_visual_def)

lemma triangle_line:
  assumes "get_RGB_colourspace L c = Some cs"
    and "CHROMATICITY_DIAGRAM_TRANSFORMATIONS L diagram = Some t"
    and "t ''XYZ_to_ij'' = Some XYZ_to_ij"
    and "close_polygon (XYZ_to_ij (xy_to_XYZ L (primaries cs)) (DEFAULT_PLOTTING_ILLUMINANT L)) = Inr stacked"
  shows "entity_at (snd (RGB_colourspace_triangle_visual L c diagram uc uo width p w)) (length (entities w)) =
     Some \<lparr>visual = Line \<lparr>line_pos = length (heap w),
                           line_color =
                             [(case uc of None \<Rightarrow> [Fin (8 / 10), Fin (8 / 10), Fin (8 / 10)]
                               | Some c \<Rightarrow> c) @ [uo]],
                           line_width = width, line_method = ''agg''\<rparr>,
            parent = p\<rparr>"
  by (simp add: triangle_ok [OF assms] entity_at_def)

lemma volume_reference_error_eq:
  assumes "get_RGB_colourspace L c = Some cs" and "create_box L seg seg seg None = Inr bv"
    and "reference_vertices L cs ref seg = Inl e"
  shows "RGB_colourspace_volume_visual L c ref seg uc uo wfr wc wo p w =
     (Inl e,
      w\<lparr>entities := entities w @
           [\<lparr>visual = Node, parent = p\<rparr>,
            cube_entity bv seg uc uo False (length (entities w)) (length (heap w))],
        heap := heap w @ [iadd (nearest L) (Fin (1 / 2)) (position bv)]\<rparr>)"
  using assms
  by (simp add: reference_vertices_def RGB_colourspace_volume_visual_def
      RGB_identity_cube_eq [OF assms(2)] Node_init_def new_array_def new_entity_def
      get_vertices_def set_vertices_def entity_at_def array_at_def update_array_def Let_def
      cube_vertices_def cube_entity_def nth_append list_update_append)

lemma extends_append: "extends w (w\<lparr>entities := entities w @ es, heap := heap w @ hs\<rparr>)"
  by (simp add: extends_def)

lemma extends_append_entities: "extends w (w\<lparr>entities := entities w @ es\<rparr>)"
  by (simp add: extends_def)

lemma wf_world_append:
  assumes "wf_world w"
    and "list_all (\<lambda>e. case parent e of None \<Rightarrow> True
                       | Some q \<Rightarrow> q < length (entities w) + length es) es"
  shows "wf_world (w\<lparr>entities := entities w @ es, heap := h\<rparr>)"
  using assms by (auto simp: wf_world_def list_all_iff split: option.splits)

lemma wf_world_append_entities:
  assumes "wf_world w"
    and "list_all (\<lambda>e. case parent e of None \<Rightarrow> True
                       | Some q \<Rightarrow> q < length (entities w) + length es) es"
  shows "wf_world (w\<lparr>entities := entities w @ es\<rparr>)"
  using assms by (auto simp: wf_world_def list_all_iff split: option.splits)

lemma identity_cube_extends:
  "extends w (snd (RGB_identity_cube L ws hs ds planes uc uo vc wfr p w))"
proof (cases "create_box L ws hs ds planes")
  case (Inl e)
  then show ?thesis by (simp add: RGB_identity_cube_error extends_def)
next
  case (Inr bv)
  then show ?thesis by (simp add: RGB_identity_cube_eq extends_append)
qed

lemma volume_extends:
  "extends w (snd (RGB_colourspace_volume_visual L c ref seg uc uo wfr wc wo p w))"
proof (cases "get_RGB_colourspace L c")
  case None
  then show ?thesis by (simp add: volume_KeyError extends_append_entities)
next
  case (Some cs)
  show ?thesis
  proof (cases "create_box L seg seg seg None")
    case (Inl e)
    show ?thesis by (simp add: volume_create_box_error [OF Some Inl] extends_append_entities)
  next
    case cb: (Inr bv)
    show ?thesis
    proof (cases "reference_vertices L cs ref seg")
      case (Inl e)
      show ?thesis by (simp add: volume_reference_error_eq [OF Some cb Inl] extends_append)
    next
      case (Inr v)
      show ?thesis by (simp add: volume_eq [OF Some cb Inr] extends_append)
    qed
  qed
qed

lemma triangle_cases:
  "RGB_colourspace_triangle_visual L c diagram uc uo width p w =
     (case get_RGB_colourspace L c of
        None \<Rightarrow> (Inl KeyError, w)
      | Some cs \<Rightarrow>
          (case CHROMATICITY_DIAGRAM_TRANSFORMATIONS L diagram of
             None \<Rightarrow> (Inl KeyError, w)
           | Some t \<Rightarrow>
               (case t ''XYZ_to_ij'' of
                  None \<Rightarrow> (Inl KeyError, w)
                | Some XYZ_to_ij \<Rightarrow>
                    (case close_polygon
                            (XYZ_to_ij (xy_to_XYZ L (primaries cs)) (DEFAULT_PLOTTING_ILLUMINANT L)) of
                       Inl e \<Rightarrow> (Inl e, w)
                     | Inr stacked \<Rightarrow>
                         (Inr (length (entities w)),
                          w\<lparr>entities := entities w @
                               [\<lparr>visual = Line \<lparr>line_pos = length (heap w),
                                                line_color =
                                                  [(case uc of
                                                      None \<Rightarrow> [Fin (8 / 10), Fin (8 / 10), Fin (8 / 10)]
                                                    | Some c \<Rightarrow> c) @ [uo]],
                                                line_width = width, line_method = ''agg''\<rparr>,
                                 parent = p\<rparr>],
                             heap := heap w @ [zero_nan stacked]\<rparr>)))))"
  by (simp add: RGB_colourspace_triangle_visual_def new_array_def Line_init_def new_entity_def
      update_array_def Let_def split: option.splits sum.splits)

lemma triangle_extends:
  "extends w (snd (RGB_colourspace_triangle_visual L c diagram uc uo width p w))"
  by (simp add: triangle_cases extends_append extends_def split: option.splits sum.splits)

lemma identity_cube_wf:
  assumes "wf_world w" and "parent_ok w p"
  shows "wf_world (snd (RGB_identity_cube L ws hs ds planes uc uo vc wfr p w))"
proof (cases "create_box L ws hs ds planes")
  case (Inl e)
  then show ?thesis using assms(1) by (simp add: RGB_identity_cube_error)
next
  case (Inr bv)
  show ?thesis
    using assms(2)
    by (auto simp: RGB_identity_cube_eq [OF Inr] parent_ok_def
        intro!: wf_world_append [OF assms(1)] split: option.splits)
qed

lemma volume_wf:
  assumes "wf_world w" and "parent_ok w p"
  shows "wf_world (snd (RGB_colourspace_volume_visual L c ref seg uc uo wfr wc wo p w))"
proof -
  have node: "wf_world (w\<lparr>entities := entities w @ [\<lparr>visual = Node, parent = p\<rparr>]\<rparr>)"
    using assms(2)
    by (auto simp: parent_ok_def intro!: wf_world_append_entities [OF assms(1)]
        split: option.splits)
  show ?thesis
  proof (cases "get_RGB_colourspace L c")
    case None
    then show ?thesis using node by (simp add: volume_KeyError)
  next
    case (Some cs)
    show ?thesis
    proof (cases "create_box L seg seg seg None")
      case (Inl e)
      show ?thesis using node by (simp add: volume_create_box_error [OF Some Inl])
    next
      case cb: (Inr bv)
      show ?thesis
      proof (cases "reference_vertices L cs ref seg")
        case (Inl e)
        show ?thesis
          using assms(2)
          by (auto simp: volume_reference_error_eq [OF Some cb Inl] parent_ok_def cube_entity_def
              intro!: wf_world_append [OF assms(1)] split: option.splits)
      next
        case (Inr v)
        show ?thesis
          using assms(2)
          by (auto simp: volume_eq [OF Some cb Inr] parent_ok_def cube_entity_def
              intro!: wf_world_append [OF assms(1)] split: option.splits)
      qed
    qed
  qed
qed

lemma triangle_wf:
  assumes "wf_world w" and "parent_ok w p"
  shows "wf_world (snd (RGB_colourspace_triangle_visual L c diagram uc uo width p w))"
  using assms
  by (auto simp: triangle_cases parent_ok_def intro!: wf_world_append
      split: option.splits sum.splits)

lemma identity_cube_geometry:
  "cube_geometry (RGB_identity_cube L ws hs ds planes uc uo vc wfr p w) =
     (case create_box L ws hs ds planes of
        Inl e \<Rightarrow> Inl e
      | Inr bv \<Rightarrow>
          Inr (Some (Some (iadd (nearest L) (Fin (1 / 2)) (position bv)),
                     (if vc then Some (color bv) else None), uc, uo, wfr)))"
proof (cases "create_box L ws hs ds planes")
  case (Inl e)
  then show ?thesis by (simp add: cube_geometry_def RGB_identity_cube_error)
next
  case (Inr bv)
  then show ?thesis
    by (simp add: cube_geometry_def RGB_identity_cube_eq geometry_of_box_def box_at_def
        entity_at_def array_at_def)
qed

lemma volume_geometry_value:
  assumes "wf_world w" and "parent_ok w p"
  shows "volume_geometry (RGB_colourspace_volume_visual L c ref seg uc uo wfr wc wo p w) =
     (case get_RGB_colourspace L c of
        None \<Rightarrow> Inl KeyError
      | Some cs \<Rightarrow>
          (case create_box L seg seg seg None of
             Inl e \<Rightarrow> Inl e
           | Inr bv \<Rightarrow>
               (case reference_vertices L cs ref seg of
                  Inl e \<Rightarrow> Inl e
                | Inr v \<Rightarrow>
                    Inr (Some (Some (zero_nan v),
                               (if truthy uc then None else Some (color bv)), uc, uo, False) #
                         (if wfr
                          then [Some (Some (zero_nan v),
                                      (if truthy wc then None else Some (color bv)),
                                      wc, wo, True)]
                          else [])))))"
proof (cases "get_RGB_colourspace L c")
  case None
  then show ?thesis by (simp add: volume_KeyError volume_geometry_def)
next
  case (Some cs)
  show ?thesis
  proof (cases "create_box L seg seg seg None")
    case (Inl e)
    show ?thesis
      using Some Inl by (simp add: volume_create_box_error [OF Some Inl] volume_geometry_def)
  next
    case cb: (Inr bv)
    show ?thesis
    proof (cases "reference_vertices L cs ref seg")
      case (Inl e)
      show ?thesis
        using Some cb Inl
        by (simp add: volume_reference_error_eq [OF Some cb Inl] volume_geometry_def)
    next
      case (Inr v)
      note valid = Some Inr
      note made = Some cb Inr
      let ?V = "RGB_colourspace_volume_visual L c ref seg uc uo wfr wc wo p w"
      obtain r w' where V: "?V = (r, w')" by (cases ?V)
      have r: "r = Inr (length (entities w))"
        using volume_ok [OF valid, of uc uo wfr wc wo p w] V by simp
      have ch: "children w' (length (entities w)) =
          Suc (length (entities w)) # (if wfr then [Suc (Suc (length (entities w)))] else [])"
        using volume_children [OF valid assms, of uc uo wfr wc wo] V by simp
      have f: "geometry_of_box w' (Suc (length (entities w))) =
          Some (Some (zero_nan v), (if truthy uc then None else Some (color bv)), uc, uo, False)"
        using volume_filled [OF made, of uc uo wfr wc wo p w]
          volume_array [OF valid, of uc uo wfr wc wo p w] V
        by (simp add: geometry_of_box_def box_at_def cube_entity_def)
      have g: "wfr \<Longrightarrow> geometry_of_box w' (Suc (Suc (length (entities w)))) =
          Some (Some (zero_nan v), (if truthy wc then None else Some (color bv)), wc, wo, True)"
        using volume_wireframe [OF made, of uc uo wc wo p w]
          volume_array [OF valid, of uc uo wfr wc wo p w] V
        by (simp add: geometry_of_box_def box_at_def cube_entity_def)
      show ?thesis
        using Some cb Inr f g by (simp add: V r ch volume_geometry_def)
    qed
  qed
qed

lemma triangle_geometry_value:
  "triangle_geometry (RGB_colourspace_triangle_visual L c diagram uc uo width p w) =
     (case get_RGB_colourspace L c of
        None \<Rightarrow> Inl KeyError
      | Some cs \<Rightarrow>
          (case CHROMATICITY_DIAGRAM_TRANSFORMATIONS L diagram of
             None \<Rightarrow> Inl KeyError
           | Some t \<Rightarrow>
               (case t ''XYZ_to_ij'' of
                  None \<Rightarrow> Inl KeyError
                | Some XYZ_to_ij \<Rightarrow>
                    (case close_polygon
                            (XYZ_to_ij (xy_to_XYZ L (primaries cs)) (DEFAULT_PLOTTING_ILLUMINANT L)) of
                       Inl e \<Rightarrow> Inl e
                     | Inr stacked \<Rightarrow>
                         Inr (Some (Some (zero_nan stacked),
                                    [(case uc of
                                        None \<Rightarrow> [Fin (8 / 10), Fin (8 / 10), Fin (8 / 10)]
                                      | Some c \<Rightarrow> c) @ [uo]],
                                    width, ''agg''))))))"
  by (simp add: triangle_cases triangle_geometry_def geometry_of_line_def line_at_def
      entity_at_def array_at_def split: option.splits sum.splits)

lemma volume_box_filled:
  assumes "get_RGB_colourspace L c = Some cs" and "create_box L seg seg seg None = Inr bv"
    and "reference_vertices L cs ref seg = Inr v"
  shows "box_at (snd (RGB_colourspace_volume_visual L c ref seg uc uo wfr wc wo p w))
           (Suc (length (entities w))) =
     Some \<lparr>box_width_segments = seg, box_height_segments = seg, box_depth_segments = seg,
           box_planes = None, box_uniform_colour = uc, box_uniform_opacity = uo,
           box_vertex_colours = (if truthy uc then None else Some (color bv)),
           box_wireframe = False, box_wireframe_offset = Some (1, 1),
           mesh_vertices = Suc (length (heap w))\<rparr>"
  by (simp add: box_at_def volume_filled [OF assms] cube_entity_def)

lemma volume_box_wireframe:
  assumes "get_RGB_colourspace L c = Some cs" and "create_box L seg seg seg None = Inr bv"
    and "reference_vertices L cs ref seg = Inr v"
  shows "box_at (snd (RGB_colourspace_volume_visual L c ref seg uc uo True wc wo p w))
           (Suc (Suc (length (entities w)))) =
     Some \<lparr>box_width_segments = seg, box_height_segments = seg, box_depth_segments = seg,
           box_planes = None, box_uniform_colour = wc, box_uniform_opacity = wo,
           box_vertex_colours = (if truthy wc then None else Some (color bv)),
           box_wireframe = True, box_wireframe_offset = Some (1, 1),
           mesh_vertices = Suc (length (heap w))\<rparr>"
  by (simp add: box_at_def volume_wireframe [OF assms] cube_entity_def)

lemma volume_get_vertices_filled:
  assumes "get_RGB_colourspace L c = Some cs" and "reference_vertices L cs ref seg = Inr v"
  shows "get_vertices (snd (RGB_colourspace_volume_visual L c ref seg uc uo wfr wc wo p w))
           (Suc (length (entities w))) = Inr (Suc (length (heap w)))"
proof -
  obtain bv where cb: "create_box L seg seg seg None = Inr bv"
    using assms(2) by (rule reference_vertices_created)
  show ?thesis
    by (simp add: get_vertices_def volume_filled [OF assms(1) cb assms(2)] cube_entity_def)
qed

lemma volume_get_vertices_wireframe:
  assumes "get_RGB_colourspace L c = Some cs" and "reference_vertices L cs ref seg = Inr v"
  shows "get_vertices (snd (RGB_colourspace_volume_visual L c ref seg uc uo True wc wo p w))
           (Suc (Suc (length (entities w)))) = Inr (Suc (length (heap w)))"
proof -
  obtain bv where cb: "create_box L seg seg seg None = Inr bv"
    using assms(2) by (rule reference_vertices_created)
  show ?thesis
    by (simp add: get_vertices_def volume_wireframe [OF assms(1) cb assms(2)] cube_entity_def)
qed

lemma parent_ok_extends:
  assumes "extends w w'" and "parent_ok w p"
  shows "parent_ok w' p"
proof -
  have "length (take (length (entities w)) (entities w')) = length (entities w)"
    using assms(1) by (simp add: extends_def)
  then have "length (entities w) \<le> length (entities w')"
    by simp
  then show ?thesis
    using assms(2) by (auto simp: parent_ok_def split: option.splits)
qed

section \<open>Sanitisation of the arrays handed to the renderer\<close>

text \<open>
  C1, as the claim states it, fails. The claim: every non-finite element (NaN and the
  infinities) of the vertex array of \<^verbatim>\<open>RGB_colourspace_volume_visual\<close> and of the
  chromaticity array of \<^verbatim>\<open>RGB_colourspace_triangle_visual\<close> is replaced by 0 before
  the array reaches the renderer. With libraries whose transformations divide by a
  coordinate, the calls return the node \<open>1\<close> and the line \<open>1\<close>, the node has the cubes
  \<open>2\<close> and \<open>3\<close>, and neither the vertex array of cube \<open>2\<close> nor the point array of the
  line is all finite: \<^verbatim>\<open>np.isnan\<close> does not select an infinity.
\<close>

theorem C1_infinite_entries_kept:
  "fst dividing_volume = Inr 1 \<and>
   children (snd dividing_volume) 1 = [2, 3] \<and>
   \<not> mesh_all_finite (snd dividing_volume) 2 \<and>
   fst dividing_triangle = Inr 1 \<and>
   \<not> line_all_finite (snd dividing_triangle) 1"
  by (simp add: dividing_volume_def dividing_triangle_def dividing_libs_def sample_libs_def
      sample_box_def sample_colourspace_def scene_world_def
      RGB_colourspace_volume_visual_def RGB_identity_cube_def Box_init_def Node_init_def
      RGB_colourspace_triangle_visual_def close_polygon_def Line_init_def
      new_array_def new_entity_def get_vertices_def set_vertices_def entity_at_def array_at_def
      update_array_def Let_def children_def mesh_all_finite_def line_all_finite_def
      mesh_array_def line_points_def box_at_def line_at_def all_finite_def elements_def
      iadd_def zero_nan_def map_array_def nan_to_zero_def)

text \<open>
  C1, amended: every NaN element is replaced by 0, and every other element, an infinity
  included, is left as it is. When the lookups succeed, \<open>v\<close> is the array the
  reference-colourspace conversion returns and \<open>stacked\<close> the chromaticity array after
  stacking. Then the volume visual returns its node, the node has cubes, the vertex
  array of every cube is \<open>v\<close> with exactly the NaN elements zeroed and holds no NaN; the
  triangle visual returns its line, whose point array is \<open>stacked\<close> with exactly the NaN
  elements zeroed and holds no NaN.
\<close>

theorem C1_nan_entries_zeroed:
  assumes "wf_world w" and "parent_ok w p"
    and "get_RGB_colourspace L c = Some cs"
    and "reference_vertices L cs ref seg = Inr v"
    and "CHROMATICITY_DIAGRAM_TRANSFORMATIONS L diagram = Some t"
    and "t ''XYZ_to_ij'' = Some XYZ_to_ij"
    and "close_polygon (XYZ_to_ij (xy_to_XYZ L (primaries cs)) (DEFAULT_PLOTTING_ILLUMINANT L)) =
         Inr stacked"
  shows "fst (RGB_colourspace_volume_visual L c ref seg uc uo wfr wc wo p w) =
       Inr (length (entities w)) \<and>
     children (snd (RGB_colourspace_volume_visual L c ref seg uc uo wfr wc wo p w))
       (length (entities w)) \<noteq> [] \<and>
     list_all (mesh_zeroed_from v (snd (RGB_colourspace_volume_visual L c ref seg uc uo wfr wc wo p w)))
       (children (snd (RGB_colourspace_volume_visual L c ref seg uc uo wfr wc wo p w))
          (length (entities w))) \<and>
     fst (RGB_colourspace_triangle_visual L c diagram tc to width p w) =
       Inr (length (entities w)) \<and>
     line_zeroed_from stacked (snd (RGB_colourspace_triangle_visual L c diagram tc to width p w))
       (length (entities w))"
proof -
  let ?V = "RGB_colourspace_volume_visual L c ref seg uc uo wfr wc wo p w"
  let ?T = "RGB_colourspace_triangle_visual L c diagram tc to width p w"
  let ?n = "length (entities w)"
  note valid = assms(3,4)
  have f: "mesh_zeroed_from v (snd ?V) (Suc ?n)"
    by (simp add: mesh_zeroed_from_def volume_mesh_filled [OF valid] zeroed_from_zero_nan
        nan_free_zero_nan)
  have g: "wfr \<Longrightarrow> mesh_zeroed_from v (snd ?V) (Suc (Suc ?n))"
    using volume_mesh_wireframe [OF valid, of uc uo wc wo p w]
    by (simp add: mesh_zeroed_from_def zeroed_from_zero_nan nan_free_zero_nan)
  have t: "line_zeroed_from stacked (snd ?T) ?n"
    by (simp add: line_zeroed_from_def triangle_points [OF assms(3,5,6,7)]
        zeroed_from_zero_nan nan_free_zero_nan)
  show ?thesis
    using f g t
    by (simp add: volume_ok [OF valid] volume_children [OF valid assms(1,2)]
        triangle_ok [OF assms(3,5,6,7)])
qed

theorem C1_nan_entries_zeroed_witness:
  "wf_world scene_world \<and> parent_ok scene_world (Some 0) \<and>
   get_RGB_colourspace sample_libs ''Rec. 709'' = Some sample_colourspace \<and>
   reference_vertices sample_libs sample_colourspace ''CIE xyY'' 16 =
     Inr [[NaN, NaN, Fin 0], [Fin 1, Fin 0, Fin 0], [Fin (1 / 3), Fin (1 / 3), Fin 1]] \<and>
   fst sample_volume = Inr 1 \<and>
   children (snd sample_volume) 1 \<noteq> [] \<and>
   list_all
     (mesh_zeroed_from [[NaN, NaN, Fin 0], [Fin 1, Fin 0, Fin 0], [Fin (1 / 3), Fin (1 / 3), Fin 1]]
        (snd sample_volume))
     (children (snd sample_volume) 1) \<and>
   fst sample_triangle = Inr 1 \<and>
   line_zeroed_from
     [[Fin (15 / 100), Fin (6 / 100)], [Fin (64 / 100), Fin (33 / 100)],
      [Fin (30 / 100), Fin (60 / 100)], [Fin (15 / 100), Fin (6 / 100)],
      [Fin (64 / 100), Fin (33 / 100)]]
     (snd sample_triangle) 1"
proof -
  have h1: "wf_world scene_world"
    by (simp add: wf_world_def scene_world_def)
  have h2: "parent_ok scene_world (Some 0)"
    by (simp add: parent_ok_def scene_world_def)
  have h3: "get_RGB_colourspace sample_libs ''Rec. 709'' = Some sample_colourspace"
    by (simp add: sample_libs_def)
  have h4: "reference_vertices sample_libs sample_colourspace ''CIE xyY'' 16 =
      Inr [[NaN, NaN, Fin 0], [Fin 1, Fin 0, Fin 0], [Fin (1 / 3), Fin (1 / 3), Fin 1]]"
    by (simp add: reference_vertices_def cube_vertices_def sample_libs_def sample_reference_def
        sample_box_def iadd_def map_array_def)
  have h5: "CHROMATICITY_DIAGRAM_TRANSFORMATIONS sample_libs ''CIE 1931'' =
      Some [''XYZ_to_ij'' \<mapsto> (\<lambda>XYZ illuminant. map (take 2) XYZ)]"
    by (simp add: sample_libs_def)
  have h6: "[''XYZ_to_ij'' \<mapsto> (\<lambda>XYZ illuminant. map (take 2) XYZ)] ''XYZ_to_ij'' =
      Some (\<lambda>(XYZ :: ndarray) (illuminant :: npfloat list). map (take 2) XYZ)"
    by simp
  have h7: "close_polygon
      (map (take 2) (xy_to_XYZ sample_libs (primaries sample_colourspace))) =
      Inr [[Fin (15 / 100), Fin (6 / 100)], [Fin (64 / 100), Fin (33 / 100)],
           [Fin (30 / 100), Fin (60 / 100)], [Fin (15 / 100), Fin (6 / 100)],
           [Fin (64 / 100), Fin (33 / 100)]]"
    by (simp add: close_polygon_def sample_libs_def sample_colourspace_def)
  show ?thesis
    using h1 h2 h3 h4
      C1_nan_entries_zeroed [where tc = None and to = "Fin 1" and width = "Fin 4" and uc = None
        and uo = "Fin (1 / 2)" and wfr = True and wc = None and wo = "Fin 1",
        OF h1 h2 h3 h4 h5 h6 h7]
    by (simp add: sample_volume_def sample_triangle_def scene_world_def)
qed

section \<open>The gamut volume\<close>

text \<open>
  C2: in \<^verbatim>\<open>RGB_colourspace_volume_visual\<close> the displayed vertices come from the
  identity cube's vertices by the two-stage conversion. Let \<open>vertices\<close> be the vertices
  of the identity cube for the segment count: the cube built under the new node holds
  them. When the colourspace is found and \<^verbatim>\<open>RGB_to_XYZ\<close> (with the colourspace's
  whitepoint twice and its matrix) followed by \<^verbatim>\<open>XYZ_to_reference_colourspace\<close> (with
  the whitepoint and the reference name) turns these vertices into \<open>v\<close>, the call
  returns its node and every cube of the node holds \<open>v\<close> with the NaN elements zeroed.
\<close>

theorem C2_two_stage_conversion:
  assumes "wf_world w" and "parent_ok w p"
    and "get_RGB_colourspace L c = Some cs"
    and "cube_vertices L seg = Inr vertices"
    and "XYZ_to_reference_colourspace L
           (RGB_to_XYZ L vertices (whitepoint cs) (whitepoint cs) (RGB_to_XYZ_matrix cs))
           (whitepoint cs) ref = Inr v"
  shows "mesh_array
       (snd (RGB_identity_cube L seg seg seg None uc uo (\<not> truthy uc) False
               (Some (length (entities w))) (snd (Node_init p w))))
       (Suc (length (entities w))) = Some vertices \<and>
     fst (RGB_colourspace_volume_visual L c ref seg uc uo wfr wc wo p w) =
       Inr (length (entities w)) \<and>
     children (snd (RGB_colourspace_volume_visual L c ref seg uc uo wfr wc wo p w))
       (length (entities w)) \<noteq> [] \<and>
     list_all
       (mesh_holds (zero_nan v) (snd (RGB_colourspace_volume_visual L c ref seg uc uo wfr wc wo p w)))
       (children (snd (RGB_colourspace_volume_visual L c ref seg uc uo wfr wc wo p w))
          (length (entities w)))"
proof -
  have valid: "get_RGB_colourspace L c = Some cs" "reference_vertices L cs ref seg = Inr v"
    using assms(3,4,5) by (simp_all add: reference_vertices_def)
  obtain bv where cb: "create_box L seg seg seg None = Inr bv"
    using valid(2) by (rule reference_vertices_created)
  have vs: "vertices = iadd (nearest L) (Fin (1 / 2)) (position bv)"
    using assms(4) cb by (simp add: cube_vertices_def)
  have cube: "mesh_array
       (snd (RGB_identity_cube L seg seg seg None uc uo (\<not> truthy uc) False
               (Some (length (entities w))) (snd (Node_init p w))))
       (Suc (length (entities w))) = Some vertices"
    using identity_cube_mesh [OF cb, of uc uo "\<not> truthy uc" False
        "Some (length (entities w))" "snd (Node_init p w)"]
    by (simp add: Node_init_def new_entity_def vs)
  have g: "wfr \<Longrightarrow> mesh_array (snd (RGB_colourspace_volume_visual L c ref seg uc uo wfr wc wo p w))
      (Suc (Suc (length (entities w)))) = Some (zero_nan v)"
    using volume_mesh_wireframe [OF valid] by simp
  show ?thesis
    using cube g
    by (simp add: volume_ok [OF valid] volume_children [OF valid assms(1,2)] mesh_holds_def
        volume_mesh_filled [OF valid])
qed

theorem C2_two_stage_conversion_witness:
  "wf_world scene_world \<and> parent_ok scene_world (Some 0) \<and>
   get_RGB_colourspace sample_libs ''Rec. 709'' = Some sample_colourspace \<and>
   cube_vertices sample_libs 16 =
     Inr [[Fin 0, Fin 0, Fin 0], [Fin 1, Fin 0, Fin 0], [Fin 1, Fin 1, Fin 1]] \<and>
   fst sample_volume = Inr 1 \<and>
   children (snd sample_volume) 1 \<noteq> [] \<and>
   list_all
     (mesh_holds [[Fin 0, Fin 0, Fin 0], [Fin 1, Fin 0, Fin 0], [Fin (1 / 3), Fin (1 / 3), Fin 1]]
        (snd sample_volume))
     (children (snd sample_volume) 1)"
proof -
  have h1: "wf_world scene_world"
    by (simp add: wf_world_def scene_world_def)
  have h2: "parent_ok scene_world (Some 0)"
    by (simp add: parent_ok_def scene_world_def)
  have h3: "get_RGB_colourspace sample_libs ''Rec. 709'' = Some sample_colourspace"
    by (simp add: sample_libs_def)
  have cv: "cube_vertices sample_libs 16 =
      Inr [[Fin 0, Fin 0, Fin 0], [Fin 1, Fin 0, Fin 0], [Fin 1, Fin 1, Fin 1]]"
    by (simp add: cube_vertices_def sample_libs_def sample_box_def iadd_def map_array_def)
  have h4: "XYZ_to_reference_colourspace sample_libs
      (RGB_to_XYZ sample_libs [[Fin 0, Fin 0, Fin 0], [Fin 1, Fin 0, Fin 0], [Fin 1, Fin 1, Fin 1]]
         (whitepoint sample_colourspace) (whitepoint sample_colourspace)
         (RGB_to_XYZ_matrix sample_colourspace))
      (whitepoint sample_colourspace) ''CIE xyY'' =
      Inr [[NaN, NaN, Fin 0], [Fin 1, Fin 0, Fin 0], [Fin (1 / 3), Fin (1 / 3), Fin 1]]"
    by (simp add: sample_libs_def sample_reference_def)
  have z: "zero_nan [[NaN, NaN, Fin 0], [Fin 1, Fin 0, Fin 0], [Fin (1 / 3), Fin (1 / 3), Fin 1]] =
      [[Fin 0, Fin 0, Fin 0], [Fin 1, Fin 0, Fin 0], [Fin (1 / 3), Fin (1 / 3), Fin 1]]"
    by (simp add: zero_nan_def map_array_def nan_to_zero_def)
  show ?thesis
    using h1 h2 h3 cv
      C2_two_stage_conversion [where uc = None and uo = "Fin (1 / 2)" and wfr = True
        and wc = None and wo = "Fin 1", OF h1 h2 h3 cv h4]
    by (simp add: sample_volume_def scene_world_def z)
qed

text \<open>
  C3, as the claim states it, fails. The claim: for every choice of segment counts and
  planes \<^verbatim>\<open>RGB_identity_cube\<close> returns a box whose vertices are those of \<^verbatim>\<open>create_box\<close>
  translated by \<open>+0.5\<close>, so that every vertex lies in \<open>[0, 1]\<^sup>3\<close>. The first statement
  of the function calls \<^verbatim>\<open>create_box\<close> with the caller's segment counts and planes,
  unchecked. With libraries that, as vispy does, refuse an empty list of planes and a
  negative segment count and divide by the segment counts, the call with no planes and
  the call with a negative count raise \<^verbatim>\<open>ValueError\<close> and return no box, and the call
  with zero segments returns a box whose vertices do not lie in the unit cube (they
  are NaN).
\<close>

theorem C3_not_for_every_choice:
  "fst no_planes_cube = Inl ValueError \<and>
   fst negative_cube = Inl ValueError \<and>
   fst no_segments_cube = Inr 0 \<and>
   \<not> mesh_in_unit_cube (snd no_segments_cube) 0"
  by (simp add: no_planes_cube_def negative_cube_def no_segments_cube_def strict_libs_def
      sample_libs_def strict_create_box_def degenerate_box_def empty_world_def
      RGB_identity_cube_def Box_init_def new_array_def new_entity_def get_vertices_def
      set_vertices_def entity_at_def array_at_def update_array_def Let_def
      mesh_in_unit_cube_def mesh_array_def box_at_def elements_def iadd_def map_array_def)

text \<open>
  C3, amended: for the segment counts and planes that \<^verbatim>\<open>create_box\<close> accepts,
  \<^verbatim>\<open>RGB_identity_cube\<close> returns a box, and the vertex array of the box is the position
  array \<^verbatim>\<open>create_box\<close> returned with \<open>0.5\<close> added to every coordinate in the arithmetic
  of the array (each sum rounded to the element type). When the rounding is monotone
  and keeps \<open>0\<close> and \<open>1\<close>, and every coordinate \<^verbatim>\<open>create_box\<close> returned lies in
  \<open>[-0.5, 0.5]\<close> (the unit box centred at the origin), every coordinate of the cube lies
  in \<open>[0, 1]\<close>. When \<^verbatim>\<open>create_box\<close> raises, the call raises the same error and leaves
  the scene as it was.
\<close>

theorem C3_identity_cube_translated:
  "(create_box L ws hs ds planes = Inl e \<longrightarrow>
      RGB_identity_cube L ws hs ds planes uc uo vc wfr p w = (Inl e, w)) \<and>
   (create_box L ws hs ds planes = Inr bv \<longrightarrow>
      fst (RGB_identity_cube L ws hs ds planes uc uo vc wfr p w) = Inr (length (entities w)) \<and>
      (\<exists>a. mesh_array (snd (RGB_identity_cube L ws hs ds planes uc uo vc wfr p w))
              (length (entities w)) = Some a \<and>
           translated_by (nearest L) (Fin (1 / 2)) (position bv) a \<and>
           (mono (nearest L) \<and> nearest L 0 = 0 \<and> nearest L 1 = 1 \<and>
            list_all (between (- 1 / 2) (1 / 2)) (elements (position bv))
              \<longrightarrow> list_all (between 0 1) (elements a))))"
proof -
  let ?a = "iadd (nearest L) (Fin (1 / 2)) (position bv)"
  have t: "translated_by (nearest L) (Fin (1 / 2)) (position bv) ?a"
    by (simp add: translated_by_def iadd_def map_array_def list_all2_map2 list_all2_same)
  have b: "mono (nearest L) \<and> nearest L 0 = 0 \<and> nearest L 1 = 1 \<and>
      list_all (between (- 1 / 2) (1 / 2)) (elements (position bv)) \<longrightarrow>
      list_all (between 0 1) (elements ?a)"
    by (auto simp: elements_def iadd_def map_array_def list_all_iff intro: between_translated)
  have ok: "create_box L ws hs ds planes = Inr bv \<Longrightarrow>
      fst (RGB_identity_cube L ws hs ds planes uc uo vc wfr p w) = Inr (length (entities w))"
    by (simp add: RGB_identity_cube_eq)
  show ?thesis
    using t b ok by (simp add: identity_cube_mesh RGB_identity_cube_error)
qed

theorem C3_identity_cube_translated_witness:
  "create_box strict_libs 16 16 16 (Some []) = Inl ValueError \<and>
   no_planes_cube = (Inl ValueError, empty_world) \<and>
   create_box strict_libs 16 16 16 None = Inr sixth_box \<and>
   mono (nearest strict_libs) \<and> nearest strict_libs 0 = 0 \<and> nearest strict_libs 1 = 1 \<and>
   list_all (between (- 1 / 2) (1 / 2)) (elements (position sixth_box)) \<and>
   fst strict_cube = Inr 0 \<and>
   mesh_array (snd strict_cube) 0 = Some [[Fin 0, Fin (3 / 4), Fin 1]] \<and>
   list_all (between 0 1) (elements [[Fin 0, Fin (3 / 4), Fin 1]])"
proof -
  have e: "create_box strict_libs 16 16 16 (Some []) = Inl ValueError"
    by (simp add: strict_libs_def strict_create_box_def)
  have r: "create_box strict_libs 16 16 16 None = Inr sixth_box"
    by (simp add: strict_libs_def strict_create_box_def)
  have m: "mono (nearest strict_libs) \<and> nearest strict_libs 0 = 0 \<and> nearest strict_libs 1 = 1"
    by (auto simp: strict_libs_def mono_def quarter_def intro!: round_mono divide_right_mono)
  have h: "list_all (between (- 1 / 2) (1 / 2)) (elements (position sixth_box))"
    by (simp add: sixth_box_def elements_def)
  have q: "quarter 0 = 0" "quarter (2 / 3) = 3 / 4" "quarter 1 = 1"
    by (simp_all add: quarter_def round_def)
  have n: "nearest strict_libs = quarter"
    by (simp add: strict_libs_def)
  have p: "position sixth_box = [[Fin (- 1 / 2), Fin (1 / 6), Fin (1 / 2)]]"
    by (simp add: sixth_box_def)
  show ?thesis
    using e r m h
      C3_identity_cube_translated [of strict_libs 16 16 16 "Some []" ValueError None "Fin 1"
        True False None empty_world sixth_box]
      C3_identity_cube_translated [of strict_libs 16 16 16 None ValueError None "Fin 1"
        True False None empty_world sixth_box]
    by (auto simp: no_planes_cube_def strict_cube_def empty_world_def translated_by_def
        list_all2_Cons1 elements_def n p q simp del: One_nat_def)
qed

section \<open>The chromaticity triangle\<close>

text \<open>
  C4: the points given to the \<^verbatim>\<open>Line\<close> form a closed polygon over the primaries. Let
  \<open>ij\<close> be the chromaticity coordinates of the primaries (\<^verbatim>\<open>xy_to_XYZ\<close>, then the
  diagram's \<^verbatim>\<open>XYZ_to_ij\<close>), one row for each of the \<open>n > 0\<close> primaries. The call
  returns its line, and the line's points \<open>pts\<close> have \<open>n + 2\<close> rows: the first is the
  row of the last primary, the last is the row of the first primary, row \<open>k + 1\<close> is the
  row of primary \<open>k\<close>; segment \<open>k\<close> of the polyline, for \<open>k < n\<close>, runs from the cyclic
  predecessor of primary \<open>k\<close> to primary \<open>k\<close>, so all \<open>n\<close> edges are drawn, and after
  \<open>n\<close> segments the polyline is back at its first point. Rows are read after the NaN
  elements are zeroed; when \<open>ij\<close> holds no NaN they are the rows of \<open>ij\<close> themselves.
\<close>

theorem C4_closed_polygon:
  assumes "get_RGB_colourspace L c = Some cs"
    and "CHROMATICITY_DIAGRAM_TRANSFORMATIONS L diagram = Some t"
    and "t ''XYZ_to_ij'' = Some XYZ_to_ij"
    and "XYZ_to_ij (xy_to_XYZ L (primaries cs)) (DEFAULT_PLOTTING_ILLUMINANT L) = ij"
    and "length ij = length (primaries cs)"
    and "primaries cs \<noteq> []"
  shows "fst (RGB_colourspace_triangle_visual L c diagram uc uo width p w) =
       Inr (length (entities w)) \<and>
     (\<exists>pts. line_points (snd (RGB_colourspace_triangle_visual L c diagram uc uo width p w))
              (length (entities w)) = Some pts \<and>
        length pts = length (primaries cs) + 2 \<and>
        pts ! 0 = map nan_to_zero (last ij) \<and>
        last pts = map nan_to_zero (hd ij) \<and>
        (\<forall>k<length ij. pts ! Suc k = map nan_to_zero (ij ! k)) \<and>
        (\<forall>k<length ij. pts ! k = map nan_to_zero (ij ! ((k + length ij - 1) mod length ij))) \<and>
        pts ! length ij = pts ! 0 \<and>
        (nan_free ij \<longrightarrow> pts = last ij # ij @ [hd ij]))"
proof -
  have ne: "ij \<noteq> []"
    using assms(5,6) by auto
  have st: "close_polygon (XYZ_to_ij (xy_to_XYZ L (primaries cs)) (DEFAULT_PLOTTING_ILLUMINANT L)) =
      Inr (last ij # ij @ [hd ij])"
    using assms(4) ne by (simp add: close_polygon_def)
  note ok = triangle_ok [OF assms(1,2,3) st]
  note pts = triangle_points [OF assms(1,2,3) st]
  have id: "nan_free ij \<Longrightarrow> zero_nan (last ij # ij @ [hd ij]) = last ij # ij @ [hd ij]"
    using nan_free_stacked [OF _ ne] by (simp add: zero_nan_id)
  have "fst (RGB_colourspace_triangle_visual L c diagram uc uo width p w) =
      Inr (length (entities w))"
    by (simp add: ok)
  moreover have "length (zero_nan (last ij # ij @ [hd ij])) = length (primaries cs) + 2"
    using stacked_nth(1) [OF ne] assms(5) by simp
  ultimately show ?thesis
    using pts stacked_nth(2,3,4,5) [OF ne] stacked_predecessor [OF ne] id
    by simp
qed

theorem C4_closed_polygon_witness:
  "get_RGB_colourspace sample_libs ''Rec. 709'' = Some sample_colourspace \<and>
   length (primaries sample_colourspace) = 3 \<and>
   fst sample_triangle = Inr 1 \<and>
   line_points (snd sample_triangle) 1 =
     Some [[Fin (15 / 100), Fin (6 / 100)], [Fin (64 / 100), Fin (33 / 100)],
           [Fin (30 / 100), Fin (60 / 100)], [Fin (15 / 100), Fin (6 / 100)],
           [Fin (64 / 100), Fin (33 / 100)]]"
proof -
  have h1: "get_RGB_colourspace sample_libs ''Rec. 709'' = Some sample_colourspace"
    by (simp add: sample_libs_def)
  have h2: "CHROMATICITY_DIAGRAM_TRANSFORMATIONS sample_libs ''CIE 1931'' =
      Some [''XYZ_to_ij'' \<mapsto> (\<lambda>XYZ illuminant. map (take 2) XYZ)]"
    by (simp add: sample_libs_def)
  have h3: "[''XYZ_to_ij'' \<mapsto> (\<lambda>XYZ illuminant. map (take 2) XYZ)] ''XYZ_to_ij'' =
      Some (\<lambda>(XYZ :: ndarray) (illuminant :: npfloat list). map (take 2) XYZ)"
    by simp
  have h4: "map (take 2) (xy_to_XYZ sample_libs (primaries sample_colourspace)) =
      [[Fin (64 / 100), Fin (33 / 100)], [Fin (30 / 100), Fin (60 / 100)],
       [Fin (15 / 100), Fin (6 / 100)]]"
    by (simp add: sample_libs_def sample_colourspace_def)
  have h5: "length [[Fin (64 / 100), Fin (33 / 100)], [Fin (30 / 100), Fin (60 / 100)],
       [Fin (15 / 100), Fin (6 / 100)]] = length (primaries sample_colourspace)"
    by (simp add: sample_colourspace_def)
  have h6: "primaries sample_colourspace \<noteq> []"
    by (simp add: sample_colourspace_def)
  have nf: "nan_free [[Fin (64 / 100), Fin (33 / 100)], [Fin (30 / 100), Fin (60 / 100)],
       [Fin (15 / 100), Fin (6 / 100)]]"
    by (simp add: nan_free_def elements_def)
  have n3: "length (primaries sample_colourspace) = 3"
    by (simp add: sample_colourspace_def)
  show ?thesis
    using h1 n3 nf
      C4_closed_polygon [where uc = None and uo = "Fin 1" and width = "Fin 4" and p = "Some 0"
        and w = scene_world, OF h1 h2 h3 h4 h5 h6]
    by (auto simp: sample_triangle_def scene_world_def)
qed

section \<open>Lookup failures\<close>

text \<open>
  C5: a colourspace name that \<^verbatim>\<open>get_RGB_colourspace\<close> does not resolve makes
  \<^verbatim>\<open>RGB_colourspace_volume_visual\<close> raise the lookup's \<^verbatim>\<open>KeyError\<close>, and a diagram
  name that is no key of \<^verbatim>\<open>CHROMATICITY_DIAGRAM_TRANSFORMATIONS\<close> makes
  \<^verbatim>\<open>RGB_colourspace_triangle_visual\<close> raise the lookup's \<^verbatim>\<open>KeyError\<close>, as an unknown
  colourspace name does there too. The error is the result of the call: no visual is
  returned. The triangle call leaves the world as it was; the volume call has created
  its node by then, and nothing else.
\<close>

theorem C5_lookup_failures_propagate:
  "(get_RGB_colourspace L c = None \<longrightarrow>
      fst (RGB_colourspace_volume_visual L c ref seg uc uo wfr wc wo p w) = Inl KeyError \<and>
      snd (RGB_colourspace_volume_visual L c ref seg uc uo wfr wc wo p w) =
        snd (Node_init p w)) \<and>
   (CHROMATICITY_DIAGRAM_TRANSFORMATIONS L diagram = None \<longrightarrow>
      RGB_colourspace_triangle_visual L c diagram tc to width p w = (Inl KeyError, w)) \<and>
   (get_RGB_colourspace L c = None \<longrightarrow>
      RGB_colourspace_triangle_visual L c diagram tc to width p w = (Inl KeyError, w))"
  by (simp add: volume_KeyError triangle_diagram_KeyError triangle_colourspace_KeyError
      Node_init_def new_entity_def)

theorem C5_lookup_failures_propagate_witness:
  "get_RGB_colourspace sample_libs ''Rec. 708'' = None \<and>
   CHROMATICITY_DIAGRAM_TRANSFORMATIONS sample_libs ''CIE 1932'' = None \<and>
   fst (RGB_colourspace_volume_visual sample_libs ''Rec. 708'' ''CIE xyY'' 16 None (Fin (1 / 2))
          True None (Fin 1) (Some 0) scene_world) = Inl KeyError \<and>
   RGB_colourspace_triangle_visual sample_libs ''Rec. 708'' ''CIE 1932'' None (Fin 1) (Fin 4)
     (Some 0) scene_world = (Inl KeyError, scene_world)"
proof -
  have h1: "get_RGB_colourspace sample_libs ''Rec. 708'' = None"
    by (simp add: sample_libs_def)
  have h2: "CHROMATICITY_DIAGRAM_TRANSFORMATIONS sample_libs ''CIE 1932'' = None"
    by (simp add: sample_libs_def)
  show ?thesis
    using h1 h2
      C5_lookup_failures_propagate [of sample_libs "''Rec. 708''" "''CIE xyY''" 16 None
        "Fin (1 / 2)" True None "Fin 1" "Some 0" scene_world "''CIE 1932''" None "Fin 1" "Fin 4"]
    by simp
qed

section \<open>The returned objects\<close>

text \<open>
  C6: for every valid input the constructors return scene-graph objects and nothing else.
  \<^verbatim>\<open>RGB_colourspace_volume_visual\<close> returns a \<^verbatim>\<open>Node\<close> whose parent is the supplied
  parent; the node has children, and each of them is a box attached to the node.
  \<^verbatim>\<open>RGB_colourspace_triangle_visual\<close> returns a \<^verbatim>\<open>Line\<close> whose parent is the supplied
  parent.
\<close>

theorem C6_scene_objects_returned:
  assumes "wf_world w" and "parent_ok w p"
    and "get_RGB_colourspace L c = Some cs"
    and "reference_vertices L cs ref seg = Inr v"
    and "CHROMATICITY_DIAGRAM_TRANSFORMATIONS L diagram = Some t"
    and "t ''XYZ_to_ij'' = Some XYZ_to_ij"
    and "close_polygon (XYZ_to_ij (xy_to_XYZ L (primaries cs)) (DEFAULT_PLOTTING_ILLUMINANT L)) =
         Inr stacked"
  shows "fst (RGB_colourspace_volume_visual L c ref seg uc uo wfr wc wo p w) =
       Inr (length (entities w)) \<and>
     entity_at (snd (RGB_colourspace_volume_visual L c ref seg uc uo wfr wc wo p w))
       (length (entities w)) = Some \<lparr>visual = Node, parent = p\<rparr> \<and>
     children (snd (RGB_colourspace_volume_visual L c ref seg uc uo wfr wc wo p w))
       (length (entities w)) \<noteq> [] \<and>
     list_all (is_box (snd (RGB_colourspace_volume_visual L c ref seg uc uo wfr wc wo p w)))
       (children (snd (RGB_colourspace_volume_visual L c ref seg uc uo wfr wc wo p w))
          (length (entities w))) \<and>
     list_all
       (attached_to (length (entities w))
          (snd (RGB_colourspace_volume_visual L c ref seg uc uo wfr wc wo p w)))
       (children (snd (RGB_colourspace_volume_visual L c ref seg uc uo wfr wc wo p w))
          (length (entities w))) \<and>
     fst (RGB_colourspace_triangle_visual L c diagram tc to width p w) =
       Inr (length (entities w)) \<and>
     is_line_under p (snd (RGB_colourspace_triangle_visual L c diagram tc to width p w))
       (length (entities w))"
proof -
  note valid = assms(3,4)
  note tri = assms(3,5,6,7)
  obtain bv where cb: "create_box L seg seg seg None = Inr bv"
    using assms(4) by (rule reference_vertices_created)
  note made = assms(3) cb assms(4)
  have g: "wfr \<Longrightarrow> entity_at (snd (RGB_colourspace_volume_visual L c ref seg uc uo wfr wc wo p w))
      (Suc (Suc (length (entities w)))) =
      Some (cube_entity bv seg wc wo True (length (entities w)) (Suc (length (heap w))))"
    using volume_wireframe [OF made] by simp
  show ?thesis
    using g
    by (simp add: volume_ok [OF valid] volume_node [OF valid]
        volume_children [OF valid assms(1,2)] is_box_def attached_to_def box_at_def
        volume_filled [OF made] cube_entity_def is_line_under_def triangle_line [OF tri])
      (simp add: triangle_ok [OF tri])
qed

theorem C6_scene_objects_returned_witness:
  "wf_world scene_world \<and> parent_ok scene_world (Some 0) \<and>
   fst sample_volume = Inr 1 \<and>
   entity_at (snd sample_volume) 1 = Some \<lparr>visual = Node, parent = Some 0\<rparr> \<and>
   children (snd sample_volume) 1 \<noteq> [] \<and>
   list_all (is_box (snd sample_volume)) (children (snd sample_volume) 1) \<and>
   list_all (attached_to 1 (snd sample_volume)) (children (snd sample_volume) 1) \<and>
   fst sample_triangle = Inr 1 \<and>
   is_line_under (Some 0) (snd sample_triangle) 1"
proof -
  have h1: "wf_world scene_world"
    by (simp add: wf_world_def scene_world_def)
  have h2: "parent_ok scene_world (Some 0)"
    by (simp add: parent_ok_def scene_world_def)
  have h3: "get_RGB_colourspace sample_libs ''Rec. 709'' = Some sample_colourspace"
    by (simp add: sample_libs_def)
  have h4: "reference_vertices sample_libs sample_colourspace ''CIE xyY'' 16 =
      Inr [[NaN, NaN, Fin 0], [Fin 1, Fin 0, Fin 0], [Fin (1 / 3), Fin (1 / 3), Fin 1]]"
    by (simp add: reference_vertices_def cube_vertices_def sample_libs_def sample_reference_def
        sample_box_def iadd_def map_array_def)
  have h5: "CHROMATICITY_DIAGRAM_TRANSFORMATIONS sample_libs ''CIE 1931'' =
      Some [''XYZ_to_ij'' \<mapsto> (\<lambda>XYZ illuminant. map (take 2) XYZ)]"
    by (simp add: sample_libs_def)
  have h6: "[''XYZ_to_ij'' \<mapsto> (\<lambda>XYZ illuminant. map (take 2) XYZ)] ''XYZ_to_ij'' =
      Some (\<lambda>(XYZ :: ndarray) (illuminant :: npfloat list). map (take 2) XYZ)"
    by simp
  have h7: "close_polygon
      (map (take 2) (xy_to_XYZ sample_libs (primaries sample_colourspace))) =
      Inr [[Fin (15 / 100), Fin (6 / 100)], [Fin (64 / 100), Fin (33 / 100)],
           [Fin (30 / 100), Fin (60 / 100)], [Fin (15 / 100), Fin (6 / 100)],
           [Fin (64 / 100), Fin (33 / 100)]]"
    by (simp add: close_polygon_def sample_libs_def sample_colourspace_def)
  show ?thesis
    using h1 h2
      C6_scene_objects_returned [where tc = None and to = "Fin 1" and width = "Fin 4"
        and uc = None and uo = "Fin (1 / 2)" and wfr = True and wc = None and wo = "Fin 1",
        OF h1 h2 h3 h4 h5 h6 h7]
    by (simp add: sample_volume_def sample_triangle_def scene_world_def)
qed

section \<open>Determinism and state\<close>

text \<open>
  C7: the three functions are deterministic and share no mutable state. The libraries
  being functions of their arguments, the geometry a call builds (vertex positions,
  vertex colours, uniform colour and opacity, line points and line colour) is the same
  in any two worlds and under any two parents: it depends on the arguments alone, so no
  earlier call can change it. A call leaves every object and every array that existed
  before it unchanged, and leaves a well-formed world well-formed, so the next call
  finds the premises of this theorem again: a second call of the volume visual with the
  same arguments, made in the world the first one left, builds the same geometry. (The
  node's children are read through the parent references; for them the worlds have to
  be well-formed. A new object does appear among the children of the parent it was
  given; no function of the module reads them.)
\<close>

theorem C7_geometry_independent_of_state:
  "cube_geometry (RGB_identity_cube L ws hs ds planes cc co vc cw p w) =
     cube_geometry (RGB_identity_cube L ws hs ds planes cc co vc cw p' w') \<and>
   (wf_world w \<and> parent_ok w p \<and> wf_world w' \<and> parent_ok w' p' \<longrightarrow>
      volume_geometry (RGB_colourspace_volume_visual L c ref seg uc uo wfr wc wo p w) =
        volume_geometry (RGB_colourspace_volume_visual L c ref seg uc uo wfr wc wo p' w')) \<and>
   triangle_geometry (RGB_colourspace_triangle_visual L c diagram tc to width p w) =
     triangle_geometry (RGB_colourspace_triangle_visual L c diagram tc to width p' w') \<and>
   extends w (snd (RGB_identity_cube L ws hs ds planes cc co vc cw p w)) \<and>
   extends w (snd (RGB_colourspace_volume_visual L c ref seg uc uo wfr wc wo p w)) \<and>
   extends w (snd (RGB_colourspace_triangle_visual L c diagram tc to width p w)) \<and>
   (wf_world w \<and> parent_ok w p \<longrightarrow>
      wf_world (snd (RGB_identity_cube L ws hs ds planes cc co vc cw p w)) \<and>
      wf_world (snd (RGB_colourspace_volume_visual L c ref seg uc uo wfr wc wo p w)) \<and>
      wf_world (snd (RGB_colourspace_triangle_visual L c diagram tc to width p w)) \<and>
      volume_geometry
        (RGB_colourspace_volume_visual L c ref seg uc uo wfr wc wo p
           (snd (RGB_colourspace_volume_visual L c ref seg uc uo wfr wc wo p w))) =
        volume_geometry (RGB_colourspace_volume_visual L c ref seg uc uo wfr wc wo p w))"
proof -
  have again: "wf_world w \<and> parent_ok w p \<longrightarrow>
      volume_geometry
        (RGB_colourspace_volume_visual L c ref seg uc uo wfr wc wo p
           (snd (RGB_colourspace_volume_visual L c ref seg uc uo wfr wc wo p w))) =
        volume_geometry (RGB_colourspace_volume_visual L c ref seg uc uo wfr wc wo p w)"
  proof
    assume a: "wf_world w \<and> parent_ok w p"
    let ?w = "snd (RGB_colourspace_volume_visual L c ref seg uc uo wfr wc wo p w)"
    have 1: "wf_world ?w"
      using a by (simp add: volume_wf)
    have 2: "parent_ok ?w p"
      using a parent_ok_extends [OF volume_extends] by simp
    show "volume_geometry (RGB_colourspace_volume_visual L c ref seg uc uo wfr wc wo p ?w) =
        volume_geometry (RGB_colourspace_volume_visual L c ref seg uc uo wfr wc wo p w)"
      using a by (simp only: volume_geometry_value [OF 1 2] volume_geometry_value)
  qed
  have cube: "cube_geometry (RGB_identity_cube L ws hs ds planes cc co vc cw p w) =
      cube_geometry (RGB_identity_cube L ws hs ds planes cc co vc cw p' w')"
    by (simp only: identity_cube_geometry)
  have vol: "wf_world w \<and> parent_ok w p \<and> wf_world w' \<and> parent_ok w' p' \<longrightarrow>
      volume_geometry (RGB_colourspace_volume_visual L c ref seg uc uo wfr wc wo p w) =
        volume_geometry (RGB_colourspace_volume_visual L c ref seg uc uo wfr wc wo p' w')"
    by (simp add: volume_geometry_value)
  have tri: "triangle_geometry (RGB_colourspace_triangle_visual L c diagram tc to width p w) =
      triangle_geometry (RGB_colourspace_triangle_visual L c diagram tc to width p' w')"
    by (simp only: triangle_geometry_value)
  have wf: "wf_world w \<and> parent_ok w p \<longrightarrow>
      wf_world (snd (RGB_identity_cube L ws hs ds planes cc co vc cw p w)) \<and>
      wf_world (snd (RGB_colourspace_volume_visual L c ref seg uc uo wfr wc wo p w)) \<and>
      wf_world (snd (RGB_colourspace_triangle_visual L c diagram tc to width p w))"
    by (simp add: identity_cube_wf volume_wf triangle_wf)
  show ?thesis
    using cube vol tri wf again
    by (simp only: identity_cube_extends volume_extends triangle_extends simp_thms) simp
qed

theorem C7_geometry_independent_of_state_witness:
  "wf_world empty_world \<and> parent_ok empty_world None \<and>
   wf_world scene_world \<and> parent_ok scene_world (Some 0) \<and>
   cube_geometry empty_cube = cube_geometry sample_cube \<and>
   volume_geometry empty_volume = volume_geometry sample_volume \<and>
   triangle_geometry empty_triangle = triangle_geometry sample_triangle \<and>
   extends empty_world (snd empty_volume) \<and>
   wf_world (snd empty_volume) \<and>
   volume_geometry
     (RGB_colourspace_volume_visual sample_libs ''Rec. 709'' ''CIE xyY'' 16 None (Fin (1 / 2))
        True None (Fin 1) None (snd empty_volume)) =
     volume_geometry empty_volume"
proof -
  have h: "wf_world empty_world \<and> parent_ok empty_world None \<and>
      wf_world scene_world \<and> parent_ok scene_world (Some 0)"
    by (simp add: wf_world_def parent_ok_def empty_world_def scene_world_def)
  show ?thesis
    using h
      C7_geometry_independent_of_state [where L = sample_libs and ws = 16 and hs = 16
        and ds = 16 and planes = None and cc = None and co = "Fin 1" and vc = True
        and cw = False and p = None and w = empty_world and p' = "Some 0" and w' = scene_world
        and c = "''Rec. 709''" and ref = "''CIE xyY''" and seg = 16 and uc = None
        and uo = "Fin (1 / 2)" and wfr = True and wc = None and wo = "Fin 1"
        and diagram = "''CIE 1931''" and tc = None and to = "Fin 1" and width = "Fin 4"]
    by (simp add: empty_cube_def sample_cube_def empty_volume_def sample_volume_def
        empty_triangle_def sample_triangle_def)
qed

section \<open>The cubes of the volume visual\<close>

text \<open>
  C8: when \<^verbatim>\<open>wireframe\<close> is true the node returned by
  \<^verbatim>\<open>RGB_colourspace_volume_visual\<close> has exactly two children, the filled cube and the
  wireframe cube, both boxes; the meshes of the two hold the very same array (one
  reference), and that array is the converted vertex array with the NaN elements
  zeroed, so the two cubes have the same vertex positions. When \<^verbatim>\<open>wireframe\<close> is false
  the node has exactly one child, the filled cube.
\<close>

theorem C8_wireframe_shares_vertices:
  assumes "wf_world w" and "parent_ok w p"
    and "get_RGB_colourspace L c = Some cs"
    and "reference_vertices L cs ref seg = Inr v"
  shows "fst (RGB_colourspace_volume_visual L c ref seg uc uo wfr wc wo p w) =
       Inr (length (entities w)) \<and>
     (wfr \<longrightarrow>
        children (snd (RGB_colourspace_volume_visual L c ref seg uc uo wfr wc wo p w))
          (length (entities w)) = [Suc (length (entities w)), Suc (Suc (length (entities w)))] \<and>
        (\<exists>bf bw. box_at (snd (RGB_colourspace_volume_visual L c ref seg uc uo wfr wc wo p w))
                   (Suc (length (entities w))) = Some bf \<and>
                 box_at (snd (RGB_colourspace_volume_visual L c ref seg uc uo wfr wc wo p w))
                   (Suc (Suc (length (entities w)))) = Some bw \<and>
                 \<not> box_wireframe bf \<and> box_wireframe bw \<and>
                 mesh_vertices bf = mesh_vertices bw \<and>
                 array_at (snd (RGB_colourspace_volume_visual L c ref seg uc uo wfr wc wo p w))
                   (mesh_vertices bf) = Some (zero_nan v)) \<and>
        get_vertices (snd (RGB_colourspace_volume_visual L c ref seg uc uo wfr wc wo p w))
            (Suc (length (entities w))) =
          get_vertices (snd (RGB_colourspace_volume_visual L c ref seg uc uo wfr wc wo p w))
            (Suc (Suc (length (entities w)))) \<and>
        mesh_array (snd (RGB_colourspace_volume_visual L c ref seg uc uo wfr wc wo p w))
            (Suc (length (entities w))) = Some (zero_nan v) \<and>
        mesh_array (snd (RGB_colourspace_volume_visual L c ref seg uc uo wfr wc wo p w))
            (Suc (Suc (length (entities w)))) = Some (zero_nan v)) \<and>
     (\<not> wfr \<longrightarrow>
        children (snd (RGB_colourspace_volume_visual L c ref seg uc uo wfr wc wo p w))
          (length (entities w)) = [Suc (length (entities w))] \<and>
        (\<exists>bf. box_at (snd (RGB_colourspace_volume_visual L c ref seg uc uo wfr wc wo p w))
                (Suc (length (entities w))) = Some bf \<and>
              \<not> box_wireframe bf) \<and>
        mesh_array (snd (RGB_colourspace_volume_visual L c ref seg uc uo wfr wc wo p w))
            (Suc (length (entities w))) = Some (zero_nan v))"
proof -
  note valid = assms(3,4)
  obtain bv where cb: "create_box L seg seg seg None = Inr bv"
    using assms(4) by (rule reference_vertices_created)
  note made = assms(3) cb assms(4)
  show ?thesis
    by (simp add: volume_ok [OF valid] volume_children [OF valid assms(1,2)]
        volume_box_filled [OF made] volume_box_wireframe [OF made]
        volume_get_vertices_filled [OF valid] volume_get_vertices_wireframe [OF valid]
        volume_array [OF valid] volume_mesh_filled [OF valid] volume_mesh_wireframe [OF valid])
qed

theorem C8_wireframe_shares_vertices_witness:
  "wf_world scene_world \<and> parent_ok scene_world (Some 0) \<and>
   fst sample_volume = Inr 1 \<and>
   children (snd sample_volume) 1 = [2, 3] \<and>
   get_vertices (snd sample_volume) 2 = get_vertices (snd sample_volume) 3 \<and>
   mesh_array (snd sample_volume) 2 =
     Some [[Fin 0, Fin 0, Fin 0], [Fin 1, Fin 0, Fin 0], [Fin (1 / 3), Fin (1 / 3), Fin 1]] \<and>
   mesh_array (snd sample_volume) 3 =
     Some [[Fin 0, Fin 0, Fin 0], [Fin 1, Fin 0, Fin 0], [Fin (1 / 3), Fin (1 / 3), Fin 1]]"
proof -
  have h1: "wf_world scene_world"
    by (simp add: wf_world_def scene_world_def)
  have h2: "parent_ok scene_world (Some 0)"
    by (simp add: parent_ok_def scene_world_def)
  have h3: "get_RGB_colourspace sample_libs ''Rec. 709'' = Some sample_colourspace"
    by (simp add: sample_libs_def)
  have h4: "reference_vertices sample_libs sample_colourspace ''CIE xyY'' 16 =
      Inr [[NaN, NaN, Fin 0], [Fin 1, Fin 0, Fin 0], [Fin (1 / 3), Fin (1 / 3), Fin 1]]"
    by (simp add: reference_vertices_def cube_vertices_def sample_libs_def sample_reference_def
        sample_box_def iadd_def map_array_def)
  have z: "zero_nan [[NaN, NaN, Fin 0], [Fin 1, Fin 0, Fin 0], [Fin (1 / 3), Fin (1 / 3), Fin 1]] =
      [[Fin 0, Fin 0, Fin 0], [Fin 1, Fin 0, Fin 0], [Fin (1 / 3), Fin (1 / 3), Fin 1]]"
    by (simp add: zero_nan_def map_array_def nan_to_zero_def)
  have n: "Suc (Suc 0) = 2" "Suc (Suc (Suc 0)) = 3"
    by simp_all
  show ?thesis
    using h1 h2
      C8_wireframe_shares_vertices [where uc = None and uo = "Fin (1 / 2)" and wfr = True
        and wc = None and wo = "Fin 1", OF h1 h2 h3 h4]
    by (simp add: sample_volume_def scene_world_def z n)
qed

text \<open>
  C10: a cube of the volume visual gets the per-vertex colours of the tessellation
  exactly when its colour argument is falsy (\<^verbatim>\<open>None\<close>, or an empty sequence). The flag
  handed to \<^verbatim>\<open>RGB_identity_cube\<close> is the negation of the colour argument, and
  \<^verbatim>\<open>RGB_identity_cube\<close> gives the box the colours of the tessellation \<^verbatim>\<open>create_box\<close>
  returned when the flag is true and \<^verbatim>\<open>None\<close> otherwise. So the filled cube has vertex colours iff
  \<^verbatim>\<open>uniform_colour\<close> is falsy, the wireframe cube iff \<^verbatim>\<open>wireframe_colour\<close> is falsy,
  and a colour that is supplied leaves the cube without vertex colours.
\<close>

theorem C10_vertex_colours_iff_falsy:
  assumes "wf_world w" and "parent_ok w p"
    and "get_RGB_colourspace L c = Some cs"
    and "reference_vertices L cs ref seg = Inr v"
  shows "(create_box L ws hs ds planes = Inr bx \<longrightarrow>
        (\<exists>b. box_at (snd (RGB_identity_cube L ws hs ds planes cc co vc cw q w))
                (length (entities w)) = Some b \<and>
             box_vertex_colours b = (if vc then Some (color bx) else None))) \<and>
     (\<exists>bv. create_box L seg seg seg None = Inr bv \<and>
     hd (children (snd (RGB_colourspace_volume_visual L c ref seg uc uo wfr wc wo p w))
           (length (entities w))) = Suc (length (entities w)) \<and>
     (\<exists>bf. box_at (snd (RGB_colourspace_volume_visual L c ref seg uc uo wfr wc wo p w))
              (Suc (length (entities w))) = Some bf \<and>
           \<not> box_wireframe bf \<and>
           box_uniform_colour bf = uc \<and>
           (box_vertex_colours bf \<noteq> None \<longleftrightarrow> \<not> truthy uc) \<and>
           (\<not> truthy uc \<longrightarrow> box_vertex_colours bf = Some (color bv)) \<and>
           (uc = None \<longrightarrow> box_vertex_colours bf \<noteq> None) \<and>
           ((\<exists>x xs. uc = Some (x # xs)) \<longrightarrow> box_vertex_colours bf = None)) \<and>
     (wfr \<longrightarrow>
        children (snd (RGB_colourspace_volume_visual L c ref seg uc uo wfr wc wo p w))
          (length (entities w)) ! 1 = Suc (Suc (length (entities w))) \<and>
        (\<exists>bw. box_at (snd (RGB_colourspace_volume_visual L c ref seg uc uo wfr wc wo p w))
                 (Suc (Suc (length (entities w)))) = Some bw \<and>
              box_wireframe bw \<and>
              box_uniform_colour bw = wc \<and>
              (box_vertex_colours bw \<noteq> None \<longleftrightarrow> \<not> truthy wc) \<and>
              (\<not> truthy wc \<longrightarrow> box_vertex_colours bw = Some (color bv)) \<and>
              (wc = None \<longrightarrow> box_vertex_colours bw \<noteq> None) \<and>
              ((\<exists>x xs. wc = Some (x # xs)) \<longrightarrow> box_vertex_colours bw = None))))"
proof -
  note valid = assms(3,4)
  obtain bv where cb: "create_box L seg seg seg None = Inr bv"
    using assms(4) by (rule reference_vertices_created)
  note made = assms(3) cb assms(4)
  have cube: "create_box L ws hs ds planes = Inr bx \<longrightarrow>
        (\<exists>b. box_at (snd (RGB_identity_cube L ws hs ds planes cc co vc cw q w))
                (length (entities w)) = Some b \<and>
             box_vertex_colours b = (if vc then Some (color bx) else None))"
    by (simp add: RGB_identity_cube_eq box_at_def entity_at_def)
  have vol: "hd (children (snd (RGB_colourspace_volume_visual L c ref seg uc uo wfr wc wo p w))
           (length (entities w))) = Suc (length (entities w)) \<and>
     (\<exists>bf. box_at (snd (RGB_colourspace_volume_visual L c ref seg uc uo wfr wc wo p w))
              (Suc (length (entities w))) = Some bf \<and>
           \<not> box_wireframe bf \<and>
           box_uniform_colour bf = uc \<and>
           (box_vertex_colours bf \<noteq> None \<longleftrightarrow> \<not> truthy uc) \<and>
           (\<not> truthy uc \<longrightarrow> box_vertex_colours bf = Some (color bv)) \<and>
           (uc = None \<longrightarrow> box_vertex_colours bf \<noteq> None) \<and>
           ((\<exists>x xs. uc = Some (x # xs)) \<longrightarrow> box_vertex_colours bf = None)) \<and>
     (wfr \<longrightarrow>
        children (snd (RGB_colourspace_volume_visual L c ref seg uc uo wfr wc wo p w))
          (length (entities w)) ! 1 = Suc (Suc (length (entities w))) \<and>
        (\<exists>bw. box_at (snd (RGB_colourspace_volume_visual L c ref seg uc uo wfr wc wo p w))
                 (Suc (Suc (length (entities w)))) = Some bw \<and>
              box_wireframe bw \<and>
              box_uniform_colour bw = wc \<and>
              (box_vertex_colours bw \<noteq> None \<longleftrightarrow> \<not> truthy wc) \<and>
              (\<not> truthy wc \<longrightarrow> box_vertex_colours bw = Some (color bv)) \<and>
              (wc = None \<longrightarrow> box_vertex_colours bw \<noteq> None) \<and>
              ((\<exists>x xs. wc = Some (x # xs)) \<longrightarrow> box_vertex_colours bw = None)))"
    by (auto simp: volume_children [OF valid assms(1,2)] volume_box_filled [OF made]
        volume_box_wireframe [OF made])
  show ?thesis
  proof (rule conjI)
    show "create_box L ws hs ds planes = Inr bx \<longrightarrow>
        (\<exists>b. box_at (snd (RGB_identity_cube L ws hs ds planes cc co vc cw q w))
                (length (entities w)) = Some b \<and>
             box_vertex_colours b = (if vc then Some (color bx) else None))"
      by (rule cube)
  next
    show "\<exists>bv. create_box L seg seg seg None = Inr bv \<and>
     hd (children (snd (RGB_colourspace_volume_visual L c ref seg uc uo wfr wc wo p w))
           (length (entities w))) = Suc (length (entities w)) \<and>
     (\<exists>bf. box_at (snd (RGB_colourspace_volume_visual L c ref seg uc uo wfr wc wo p w))
              (Suc (length (entities w))) = Some bf \<and>
           \<not> box_wireframe bf \<and>
           box_uniform_colour bf = uc \<and>
           (box_vertex_colours bf \<noteq> None \<longleftrightarrow> \<not> truthy uc) \<and>
           (\<not> truthy uc \<longrightarrow> box_vertex_colours bf = Some (color bv)) \<and>
           (uc = None \<longrightarrow> box_vertex_colours bf \<noteq> None) \<and>
           ((\<exists>x xs. uc = Some (x # xs)) \<longrightarrow> box_vertex_colours bf = None)) \<and>
     (wfr \<longrightarrow>
        children (snd (RGB_colourspace_volume_visual L c ref seg uc uo wfr wc wo p w))
          (length (entities w)) ! 1 = Suc (Suc (length (entities w))) \<and>
        (\<exists>bw. box_at (snd (RGB_colourspace_volume_visual L c ref seg uc uo wfr wc wo p w))
                 (Suc (Suc (length (entities w)))) = Some bw \<and>
              box_wireframe bw \<and>
              box_uniform_colour bw = wc \<and>
              (box_vertex_colours bw \<noteq> None \<longleftrightarrow> \<not> truthy wc) \<and>
              (\<not> truthy wc \<longrightarrow> box_vertex_colours bw = Some (color bv)) \<and>
              (wc = None \<longrightarrow> box_vertex_colours bw \<noteq> None) \<and>
              ((\<exists>x xs. wc = Some (x # xs)) \<longrightarrow> box_vertex_colours bw = None)))"
      using cb vol by (intro exI [of _ bv] conjI) simp_all
  qed
qed

theorem C10_vertex_colours_iff_falsy_witness:
  "wf_world scene_world \<and> parent_ok scene_world (Some 0) \<and>
   \<not> truthy None \<and>
   hd (children (snd sample_volume) 1) = 2 \<and>
   children (snd sample_volume) 1 ! 1 = 3 \<and>
   (\<exists>bf. box_at (snd sample_volume) 2 = Some bf \<and> \<not> box_wireframe bf \<and>
      box_vertex_colours bf = Some (color sample_box)) \<and>
   (\<exists>bw. box_at (snd sample_volume) 3 = Some bw \<and> box_wireframe bw \<and>
      box_vertex_colours bw = Some (color sample_box))"
proof -
  have h1: "wf_world scene_world"
    by (simp add: wf_world_def scene_world_def)
  have h2: "parent_ok scene_world (Some 0)"
    by (simp add: parent_ok_def scene_world_def)
  have h3: "get_RGB_colourspace sample_libs ''Rec. 709'' = Some sample_colourspace"
    by (simp add: sample_libs_def)
  have h4: "reference_vertices sample_libs sample_colourspace ''CIE xyY'' 16 =
      Inr [[NaN, NaN, Fin 0], [Fin 1, Fin 0, Fin 0], [Fin (1 / 3), Fin (1 / 3), Fin 1]]"
    by (simp add: reference_vertices_def cube_vertices_def sample_libs_def sample_reference_def
        sample_box_def iadd_def map_array_def)
  have cb: "create_box sample_libs 16 16 16 None = Inr sample_box"
    by (simp add: sample_libs_def)
  have n: "Suc (Suc 0) = 2" "Suc (Suc (Suc 0)) = 3"
    by simp_all
  show ?thesis
    using h1 h2
      C10_vertex_colours_iff_falsy [where uc = None and uo = "Fin (1 / 2)" and wfr = True
        and wc = None and wo = "Fin 1" and ws = 16 and hs = 16 and ds = 16 and planes = None
        and cc = None and co = "Fin 1" and vc = True and cw = False and q = None
        and bx = sample_box, OF h1 h2 h3 h4]
    by (auto simp: sample_volume_def scene_world_def cb n)
qed

section \<open>The colour of the triangle\<close>

text \<open>
  C9: in \<^verbatim>\<open>RGB_colourspace_triangle_visual\<close> a \<^verbatim>\<open>uniform_colour\<close> of \<^verbatim>\<open>None\<close> stands
  for \<open>(0.8, 0.8, 0.8)\<close>, and the colour given to the \<^verbatim>\<open>Line\<close> is a tuple of one
  element, the concatenation of the colour's components and the opacity: four
  components for the default colour and for any colour of three components.
\<close>

theorem C9_line_colour:
  assumes "get_RGB_colourspace L c = Some cs"
    and "CHROMATICITY_DIAGRAM_TRANSFORMATIONS L diagram = Some t"
    and "t ''XYZ_to_ij'' = Some XYZ_to_ij"
    and "close_polygon (XYZ_to_ij (xy_to_XYZ L (primaries cs)) (DEFAULT_PLOTTING_ILLUMINANT L)) =
         Inr stacked"
  shows "fst (RGB_colourspace_triangle_visual L c diagram uc uo width p w) =
       Inr (length (entities w)) \<and>
     (\<exists>l. line_at (snd (RGB_colourspace_triangle_visual L c diagram uc uo width p w))
             (length (entities w)) = Some l \<and>
          length (line_color l) = 1 \<and>
          (uc = None \<longrightarrow> line_color l = [[Fin (8 / 10), Fin (8 / 10), Fin (8 / 10), uo]]) \<and>
          (\<forall>col. uc = Some col \<longrightarrow> line_color l = [col @ [uo]]) \<and>
          (uc = None \<or> (\<exists>col. uc = Some col \<and> length col = 3) \<longrightarrow>
             length (hd (line_color l)) = 4))"
proof -
  have l: "line_at (snd (RGB_colourspace_triangle_visual L c diagram uc uo width p w))
      (length (entities w)) =
      Some \<lparr>line_pos = length (heap w),
            line_color =
              [(case uc of None \<Rightarrow> [Fin (8 / 10), Fin (8 / 10), Fin (8 / 10)] | Some c \<Rightarrow> c) @ [uo]],
            line_width = width, line_method = ''agg''\<rparr>"
    by (simp add: line_at_def triangle_line [OF assms])
  have r: "fst (RGB_colourspace_triangle_visual L c diagram uc uo width p w) =
      Inr (length (entities w))"
    by (simp add: triangle_ok [OF assms])
  show ?thesis
    using r by (auto simp: l)
qed

theorem C9_line_colour_witness:
  "get_RGB_colourspace sample_libs ''Rec. 709'' = Some sample_colourspace \<and>
   fst sample_triangle = Inr 1 \<and>
   (\<exists>l. line_at (snd sample_triangle) 1 = Some l \<and>
      line_color l = [[Fin (8 / 10), Fin (8 / 10), Fin (8 / 10), Fin 1]] \<and>
      length (hd (line_color l)) = 4)"
proof -
  have h1: "get_RGB_colourspace sample_libs ''Rec. 709'' = Some sample_colourspace"
    by (simp add: sample_libs_def)
  have h2: "CHROMATICITY_DIAGRAM_TRANSFORMATIONS sample_libs ''CIE 1931'' =
      Some [''XYZ_to_ij'' \<mapsto> (\<lambda>XYZ illuminant. map (take 2) XYZ)]"
    by (simp add: sample_libs_def)
  have h3: "[''XYZ_to_ij'' \<mapsto> (\<lambda>XYZ illuminant. map (take 2) XYZ)] ''XYZ_to_ij'' =
      Some (\<lambda>(XYZ :: ndarray) (illuminant :: npfloat list). map (take 2) XYZ)"
    by simp
  have h4: "close_polygon
      (map (take 2) (xy_to_XYZ sample_libs (primaries sample_colourspace))) =
      Inr [[Fin (15 / 100), Fin (6 / 100)], [Fin (64 / 100), Fin (33 / 100)],
           [Fin (30 / 100), Fin (60 / 100)], [Fin (15 / 100), Fin (6 / 100)],
           [Fin (64 / 100), Fin (33 / 100)]]"
    by (simp add: close_polygon_def sample_libs_def sample_colourspace_def)
  show ?thesis
    using h1
      C9_line_colour [where uc = None and uo = "Fin 1" and width = "Fin 4" and p = "Some 0"
        and w = scene_world, OF h1 h2 h3 h4]
    by (auto simp: sample_triangle_def scene_world_def)
qed

end
